theory Spec2Isabelle
  imports Complex_Main "HOL-Library.Word"
begin

section \<open>Shared definitions (definitions\_db.h)\<close>

text \<open>
  The enum \<open>RETURN_STATUS\<close> is used as the return value of almost every function of the
  program. The constructors keep the names of the C enumerators.
\<close>

datatype RETURN_STATUS =
    ALLOC_SUCCESS | ALLOC_FAIL
  | FILL_SUCCESS | FILL_FAIL
  | GENERATE_SUCCESS | GENERATE_FAIL
  | IO_SUCCESS | IO_FAIL
  | ILP_FAIL | ILP_SUCCESS
  | LP_FAIL | LP_SUCCESS
  | BOARD_SOLVABLE | BOARD_UNSOLVABLE
  | LEGAL_VALUE | NOT_LEGAL_VALUE
  | SAFE_EXIT | ERRONEOUS_EXIT
  | PROCESS_SUCCESS | PROCESS_FAIL
  | LEGAL_LENGTH_LINE | ILLEGAL_LENGTH_LINE | BLANK_LINE | REACHED_EOF

text \<open>
  A table is the C type \<open>int **\<close> produced by \<open>alloc_table\<close>: \<open>N\<close> rows of \<open>N\<close> ints.
  \<open>tget\<close> reads \<open>t[i][j]\<close> and \<open>tset\<close> is the assignment \<open>t[i][j] = v\<close>. Indices are
  natural numbers; every theorem below that reads a table does so under a well-formedness
  hypothesis that keeps the index inside the table, where the C read is defined.
\<close>

type_synonym table = "int list list"

definition tget :: "table \<Rightarrow> nat \<Rightarrow> nat \<Rightarrow> int" where
  "tget t i j = t ! i ! j"

definition tset :: "table \<Rightarrow> nat \<Rightarrow> nat \<Rightarrow> int \<Rightarrow> table" where
  "tset t i j v = t[i := (t ! i)[j := v]]"

text \<open>\<open>alloc_table\<close> with a successful allocation: \<open>calloc\<close> zeroes every row.\<close>

definition alloc_table :: "nat \<Rightarrow> table" where
  "alloc_table n = replicate n (replicate n 0)"

text \<open>\<open>copy_table(dst, src, N)\<close> copies the first \<open>N\<close> by \<open>N\<close> cells of \<open>src\<close> over \<open>dst\<close>.\<close>

definition copy_table :: "table \<Rightarrow> table \<Rightarrow> nat \<Rightarrow> table" where
  "copy_table dst src n =
     fold (\<lambda>i d. fold (\<lambda>j d'. tset d' i j (tget src i j)) [0..<n] d) [0..<n] dst"

section \<open>Back\_Tracking\_Solver.c\<close>

text \<open>
  \<open>is_legal_value\<close>: the first loop looks at column \<open>col_y\<close> and row \<open>row_x\<close> together,
  then the block whose corner \<open>get_box_start\<close> computes is scanned. Each \<open>return
  NOT_LEGAL_VALUE\<close> inside a loop is the short-circuit of \<open>list_ex\<close>.
\<close>

definition get_box_start :: "nat \<Rightarrow> nat \<Rightarrow> nat \<Rightarrow> nat \<Rightarrow> nat \<times> nat" where
  "get_box_start row_x col_y block_rows block_cols = (row_x div block_rows, col_y div block_cols)"

definition is_legal_value :: "table \<Rightarrow> nat \<Rightarrow> nat \<Rightarrow> int \<Rightarrow> nat \<Rightarrow> nat \<Rightarrow> RETURN_STATUS" where
  "is_legal_value Board row_x col_y val block_rows block_cols =
     (let n = block_cols * block_rows in
      if list_ex (\<lambda>i. tget Board i col_y = val \<or> tget Board row_x i = val) [0..<n]
      then NOT_LEGAL_VALUE
      else
        (case get_box_start row_x col_y block_rows block_cols of (i, j) \<Rightarrow>
           if list_ex (\<lambda>l. list_ex (\<lambda>m. tget Board (i * block_rows + l) (j * block_cols + m) = val)
                              [0..<block_cols]) [0..<block_rows]
           then NOT_LEGAL_VALUE
           else LEGAL_VALUE))"

text \<open>
  \<open>get_next_cell\<close>: the scan of the \<open>while\<close> loop, then the translation of the position
  one past the last row into the sentinel \<open>(-1, -1)\<close>. The loop has no bound of its own
  (it relies on starting inside the board), so it is a partial function: \<open>None\<close> is a
  scan that does not return.
\<close>

partial_function (option) get_next_cell_loop :: "table \<Rightarrow> nat \<Rightarrow> nat \<Rightarrow> nat \<Rightarrow> (nat \<times> nat) option" where
  "get_next_cell_loop Board n i j =
     (if \<not> (j = 0 \<and> i = n) \<and> tget Board i j \<noteq> 0
      then (if j + 1 < n then get_next_cell_loop Board n i (j + 1)
            else get_next_cell_loop Board n (i + 1) 0)
      else Some (i, j))"

definition get_next_cell :: "table \<Rightarrow> nat \<Rightarrow> nat \<Rightarrow> nat \<Rightarrow> (int \<times> int) option" where
  "get_next_cell Board n x y =
     (case get_next_cell_loop Board n x y of
        None \<Rightarrow> None
      | Some (i, j) \<Rightarrow> if j = 0 \<and> i = n then Some (-1, -1) else Some (int i, int j))"

text \<open>
  \<open>backTrack\<close>. A stack node is the triple \<open>(row, col, value)\<close>; the stack is the list of
  nodes with the head first, so \<open>push\<close> is cons, \<open>pop\<close> is the tail and
  \<open>update_stack_head\<close> replaces the first element. The counter \<open>sum\<close> of the source (\<open>cnt\<close> below) is a C \<open>int\<close>;
  it is the one integer of the solver that is not bounded by the size of the board, so it
  is a 32-bit word whose increment wraps, read as a signed value with \<open>sint\<close>.
  Allocation is taken to succeed (an \<open>ALLOC_FAIL\<close> ends the program).
\<close>

type_synonym node = "int \<times> int \<times> int"

partial_function (option) backTrack_loop ::
  "nat \<Rightarrow> nat \<Rightarrow> 32 word \<Rightarrow> table \<Rightarrow> node list \<Rightarrow> (32 word \<times> table) option" where
  "backTrack_loop block_rows block_cols cnt board board_updates =
     (case board_updates of
        [] \<Rightarrow> Some (cnt, board)
      | (i, j, num) # rest \<Rightarrow>
          if i = -1 then backTrack_loop block_rows block_cols (cnt + 1) board rest
          else
            (let board0 = tset board (nat i) (nat j) 0 in
             if num = int (block_rows * block_cols) + 1
             then backTrack_loop block_rows block_cols cnt board0 rest
             else if is_legal_value board0 (nat i) (nat j) num block_rows block_cols = LEGAL_VALUE
             then
               (let board1 = tset board0 (nat i) (nat j) num in
                case get_next_cell board1 (block_rows * block_cols) (nat i) (nat j) of
                  None \<Rightarrow> None
                | Some (i', j') \<Rightarrow>
                    backTrack_loop block_rows block_cols cnt board1
                      ((i', j', 1) # (i, j, num + 1) # rest))
             else backTrack_loop block_rows block_cols cnt board0 ((i, j, num + 1) # rest)))"

definition backTrack :: "table \<Rightarrow> nat \<Rightarrow> nat \<Rightarrow> (RETURN_STATUS \<times> 32 word \<times> table) option" where
  "backTrack board block_rows block_cols =
     (let n = block_rows * block_cols in
      case (if tget board 0 0 \<noteq> 0 then get_next_cell board n 0 0 else Some (0, 0)) of
        None \<Rightarrow> None
      | Some (i, j) \<Rightarrow>
          (case backTrack_loop block_rows block_cols 0 board [(i, j, 1)] of
             None \<Rightarrow> None
           | Some (cnt, board') \<Rightarrow>
               Some (if cnt = 0 then BOARD_UNSOLVABLE else BOARD_SOLVABLE, cnt, board')))"


section \<open>Moves\_Linked\_List.c\<close>

text \<open>
  A \<open>change_node\<close> holds a cell and its value before (\<open>z1\<close>) and after (\<open>z2\<close>) a move.
  A \<open>move_node\<close> owns a singly linked list of changes, modelled as the list of its change
  nodes from \<open>changes_list_head\<close> on (\<open>add_change_to_move\<close> appends at the tail).
  The circular doubly linked list of moves is the list \<open>nodes\<close> of its move nodes in
  \<open>next\<close> order after the sentinel; \<open>curr_pointer\<close> is the position of the node the
  cursor points to, \<open>0\<close> being the sentinel and \<open>k > 0\<close> the \<open>k\<close>-th move node.
\<close>

record change_node =
  cell_rows :: nat
  cell_cols :: nat
  z1 :: int
  z2 :: int

type_synonym move_node = "change_node list"

record moves_list =
  nodes :: "move_node list"
  curr_pointer :: nat

definition alloc_move_node :: move_node where
  "alloc_move_node = []"

definition add_change_to_move :: "move_node \<Rightarrow> nat \<Rightarrow> nat \<Rightarrow> int \<Rightarrow> int \<Rightarrow> move_node" where
  "add_change_to_move m_node r c a b = m_node @ [\<lparr>cell_rows = r, cell_cols = c, z1 = a, z2 = b\<rparr>]"

text \<open>
  \<open>add_move_node_to_list\<close> deletes every node between the cursor and the sentinel, links
  the new node in as the last one and moves the cursor to it.
\<close>

definition add_move_node_to_list :: "moves_list \<Rightarrow> move_node \<Rightarrow> moves_list" where
  "add_move_node_to_list m_list_p m_node =
     \<lparr>nodes = take (curr_pointer m_list_p) (nodes m_list_p) @ [m_node],
      curr_pointer = curr_pointer m_list_p + 1\<rparr>"

definition can_redo :: "moves_list \<Rightarrow> bool" where
  "can_redo m_list_p = (curr_pointer m_list_p < length (nodes m_list_p))"

definition can_undo :: "moves_list \<Rightarrow> bool" where
  "can_undo m_list_p = (curr_pointer m_list_p \<noteq> 0)"

text \<open>
  The list is a ring: \<open>next\<close> of the last node is the sentinel and \<open>prev\<close> of the sentinel
  is the last node.
\<close>

definition inc_curr_pointer :: "moves_list \<Rightarrow> moves_list" where
  "inc_curr_pointer m_list_p =
     m_list_p\<lparr>curr_pointer :=
       (if curr_pointer m_list_p < length (nodes m_list_p) then curr_pointer m_list_p + 1 else 0)\<rparr>"

definition dec_curr_pointer :: "moves_list \<Rightarrow> moves_list" where
  "dec_curr_pointer m_list_p =
     m_list_p\<lparr>curr_pointer :=
       (if curr_pointer m_list_p = 0 then length (nodes m_list_p) else curr_pointer m_list_p - 1)\<rparr>"

text \<open>The sentinel has no changes (\<open>changes_list_head = NULL\<close>).\<close>

definition get_curr_pointer_changes_iter :: "moves_list \<Rightarrow> change_node list" where
  "get_curr_pointer_changes_iter m_list_p =
     (if curr_pointer m_list_p = 0 then [] else nodes m_list_p ! (curr_pointer m_list_p - 1))"

definition init_moves_list :: moves_list where
  "init_moves_list = \<lparr>nodes = [], curr_pointer = 0\<rparr>"

definition free_moves_list :: "moves_list \<Rightarrow> moves_list" where
  "free_moves_list m_list_p = \<lparr>nodes = [], curr_pointer = 0\<rparr>"

section \<open>The game state (definitions\_db.h)\<close>

record game_board =
  board :: table
  err :: table
  fixed :: table
  block_cols :: nat
  block_rows :: nat
  N :: nat
  empty_cells_num :: int

datatype GAME_MODE = Init | Solve | Edit

record game_state =
  mode :: GAME_MODE
  mark_errors :: int
  m_list :: moves_list
  g_board :: game_board
  valid :: int

datatype COMMAND_TYPE =
    SOLVE | EDIT | MARK_ERRORS | PRINT_BOARD | SET | VALIDATE | GENERATE | UNDO | REDO | SAVE
  | HINT | GUESS_HINT | GUESS | NUM_SOLUTIONS | AUTOFILL | RESET | EXIT | INVALID_COMMAND
  | INVALID_PARA_NUM | DEFAULT_COMMAND

record command =
  cmd_type :: COMMAND_TYPE
  parameters :: "int list"
  para :: real
  file_path :: "string option"

section \<open>The environment\<close>

text \<open>
  What the program prints is collected as a list of events: a \<open>printf\<close> is its format
  string (without the trailing newline) with its integer arguments, \<open>PrintfPath\<close> is a
  \<open>printf\<close> whose argument is a file path, \<open>PrintfScore\<close> the line of \<open>guess_hint\<close> with a
  value and its score, \<open>BoardPrint\<close> a call of \<open>board_print\<close> with its arguments and
  \<open>SaveGame\<close> the file \<open>save_game\<close> writes (path, block sizes, values and clue marks).
\<close>

datatype out =
    Printf string "int list"
  | PrintfPath string string
  | PrintfScore int real
  | BoardPrint table table table nat nat int
  | SaveGame string nat nat table table

text \<open>
  A puzzle file as the scanner of \<open>load_game\<close> sees it: the integers \<open>fscanf\<close> can read
  for the two block sizes, then the cell tokens, each an integer with the information
  whether the character right after it is a dot.
\<close>

record puzzle_file =
  pf_header :: "nat list"
  pf_cells :: "(int \<times> bool) list"

text \<open>
  The Gurobi optimizer and the file system are outside the program. \<open>solve_board_with_ILP\<close>
  and \<open>solve_board_with_LP\<close> are taken as they return: a status with the board (ILP) or
  with the score array (LP, scores as real numbers). \<open>read_file\<close> is \<open>fopen\<close> for reading
  (\<open>None\<close> when the file cannot be opened) and \<open>write_ok\<close> tells whether \<open>fopen\<close> for
  writing succeeds. Calls of \<open>rand()\<close> take the next element of a stream \<open>nat \<Rightarrow> nat\<close>.
  Memory allocation is taken to succeed everywhere: a failed allocation ends the program
  with \<open>PROCESS_FAIL\<close>.
\<close>

record env =
  solve_board_with_ILP :: "table \<Rightarrow> nat \<Rightarrow> nat \<Rightarrow> RETURN_STATUS \<times> table"
  solve_board_with_LP :: "table \<Rightarrow> nat \<Rightarrow> nat \<Rightarrow> RETURN_STATUS \<times> real list"
  read_file :: "string \<Rightarrow> puzzle_file option"
  write_ok :: "string \<Rightarrow> bool"

type_synonym rand_stream = "nat \<Rightarrow> nat"

definition rand :: "rand_stream \<Rightarrow> nat \<times> rand_stream" where
  "rand rs = (rs 0, \<lambda>k. rs (Suc k))"

definition RAND_MAX :: nat where
  "RAND_MAX = 2147483647"


section \<open>File\_IO.c\<close>

text \<open>
  \<open>load_game\<close>: the body of the double loop reads one cell token; a missing token is the
  failed \<open>fscanf\<close>. The clue mark is stored only when \<open>set_fixed\<close> is set. The board is
  \<open>None\<close> when the function returns \<open>IO_FAIL\<close> (the caller does not read it then).
\<close>

type_synonym load_state = "table \<times> table \<times> int \<times> (int \<times> bool) list"

definition load_cell :: "bool \<Rightarrow> nat \<Rightarrow> nat \<Rightarrow> load_state option \<Rightarrow> load_state option" where
  "load_cell set_fixed i j st =
     (case st of
        None \<Rightarrow> None
      | Some (brd, fixed_tabel, empty_cells, toks) \<Rightarrow>
          (case toks of
             [] \<Rightarrow> None
           | (v, dot) # rest \<Rightarrow>
               Some (tset brd i j v,
                     if set_fixed \<and> dot then tset fixed_tabel i j 1 else fixed_tabel,
                     if v = 0 then empty_cells + 1 else empty_cells,
                     rest)))"

definition load_game :: "env \<Rightarrow> string \<Rightarrow> bool \<Rightarrow> RETURN_STATUS \<times> game_board option \<times> out list" where
  "load_game e path set_fixed =
     (case read_file e path of
        None \<Rightarrow> (IO_FAIL, None, [])
      | Some f \<Rightarrow>
          (case pf_header f of
             br # bc # _ \<Rightarrow>
               (let n = br * bc in
                case fold (\<lambda>i. fold (\<lambda>j. load_cell set_fixed i j) [0..<n]) [0..<n]
                       (Some (alloc_table n, alloc_table n, 0, pf_cells f)) of
                  None \<Rightarrow> (IO_FAIL, None, [PrintfPath ''File %s not formatted correctly!'' path])
                | Some (brd, fixed_tabel, empty_cells, _) \<Rightarrow>
                    (IO_SUCCESS,
                     Some \<lparr>board = brd, err = alloc_table n, fixed = fixed_tabel,
                           block_cols = bc, block_rows = br, N = n,
                           empty_cells_num = empty_cells\<rparr>,
                     []))
           | _ \<Rightarrow> (IO_FAIL, None, [PrintfPath ''File %s not formatted correctly!'' path])))"

definition save_game :: "env \<Rightarrow> game_board \<Rightarrow> string \<Rightarrow> RETURN_STATUS \<times> out list" where
  "save_game e g_board_p path =
     (if \<not> write_ok e path then (IO_FAIL, [])
      else (IO_SUCCESS,
            [SaveGame path (block_rows g_board_p) (block_cols g_board_p)
               (board g_board_p) (fixed g_board_p)]))"

section \<open>Game.c\<close>

definition free_game :: "game_state \<Rightarrow> game_state" where
  "free_game g =
     (if valid g \<noteq> 0 then g\<lparr>m_list := free_moves_list (m_list g)\<rparr> else g)
       \<lparr>mode := Init, valid := 0\<rparr>"

text \<open>
  \<open>update_erroneous\<close>: \<open>update_erroneous_cell\<close> is the body of the double loop for the
  cell \<open>(i, j)\<close>; it threads the flag \<open>is_erroneous\<close> and the board structure.
\<close>

definition update_erroneous_cell :: "nat \<Rightarrow> nat \<Rightarrow> int \<times> game_board \<Rightarrow> int \<times> game_board" where
  "update_erroneous_cell i j = (\<lambda>(is_erroneous, g).
     let g0 = g\<lparr>err := tset (err g) i j 0\<rparr>;
         temp = tget (board g0) i j
     in if temp \<noteq> 0
        then
          (let g1 = g0\<lparr>board := tset (board g0) i j 0\<rparr>;
               (is_erroneous', g2) =
                 (if is_legal_value (board g1) i j temp (block_rows g1) (block_cols g1) = NOT_LEGAL_VALUE
                  then (1, if tget (fixed g1) i j = 0 then g1\<lparr>err := tset (err g1) i j 1\<rparr> else g1)
                  else (is_erroneous, g1))
           in (is_erroneous', g2\<lparr>board := tset (board g2) i j temp\<rparr>))
        else (is_erroneous, g0))"

definition update_erroneous :: "game_state \<Rightarrow> int \<times> game_state" where
  "update_erroneous g =
     (let n = N (g_board g);
          (is_erroneous, gb) =
             fold (\<lambda>i. fold (\<lambda>j. update_erroneous_cell i j) [0..<n]) [0..<n] (0, g_board g)
      in (is_erroneous, g\<lparr>g_board := gb\<rparr>))"

definition print_board :: "game_state \<Rightarrow> game_state \<times> out list" where
  "print_board g =
     (let eff_mark_errors = (if mode g = Solve then mark_errors g else 1);
          g' = (if eff_mark_errors \<noteq> 0 then snd (update_erroneous g) else g)
      in (g', [BoardPrint (board (g_board g')) (fixed (g_board g')) (err (g_board g'))
                 (block_rows (g_board g')) (block_cols (g_board g')) eff_mark_errors]))"

definition solve :: "env \<Rightarrow> game_state \<Rightarrow> string \<Rightarrow> RETURN_STATUS \<times> game_state \<times> out list" where
  "solve e g path =
     (case load_game e path True of
        (status, Some dummy_g_board, os) \<Rightarrow>
          (let g1 = (free_game g)\<lparr>g_board := dummy_g_board, m_list := init_moves_list,
                                   mode := Solve, valid := 1\<rparr>;
               (g2, os') = print_board g1
           in (PROCESS_SUCCESS, g2, os @ os'))
      | (status, None, os) \<Rightarrow>
          (PROCESS_SUCCESS, g, os @ [Printf ''Error: File does not exist or cannot be opened'' []]))"

text \<open>
  \<open>edit\<close> without a path builds the default empty 9 by 9 board with 3 by 3 blocks.
\<close>

definition edit :: "env \<Rightarrow> game_state \<Rightarrow> string option \<Rightarrow> RETURN_STATUS \<times> game_state \<times> out list" where
  "edit e g path_opt =
     (let loaded =
            (case path_opt of
               Some path \<Rightarrow> load_game e path False
             | None \<Rightarrow>
                 (IO_SUCCESS,
                  Some \<lparr>board = alloc_table 9, err = alloc_table 9, fixed = alloc_table 9,
                        block_cols = 3, block_rows = 3, N = 9, empty_cells_num = 81\<rparr>,
                  []))
      in case loaded of
           (status, Some dummy_g_board, os) \<Rightarrow>
             (let g1 = (free_game g)\<lparr>g_board := dummy_g_board, m_list := init_moves_list,
                                      mode := Edit, valid := 1\<rparr>;
                  (g2, os') = print_board g1
              in (PROCESS_SUCCESS, g2, os @ os'))
         | (status, None, os) \<Rightarrow>
             (PROCESS_SUCCESS, g, os @ [Printf ''Error: File cannot be opened'' []]))"

definition set_cell :: "game_state \<Rightarrow> nat \<Rightarrow> nat \<Rightarrow> int \<Rightarrow> game_state" where
  "set_cell g r c znew =
     (let zold = tget (board (g_board g)) r c;
          before_filled = (if zold \<noteq> 0 then 1 else 0);
          after_filled = (if znew \<noteq> 0 then 1 else (0::int));
          m_node = add_change_to_move alloc_move_node r c zold znew
      in g\<lparr>m_list := add_move_node_to_list (m_list g) m_node,
            g_board := (g_board g)\<lparr>board := tset (board (g_board g)) r c znew,
                                   empty_cells_num := empty_cells_num (g_board g) - (after_filled - before_filled)\<rparr>\<rparr>)"

text \<open>
  \<open>is_valid_board\<close> runs the ILP solver on a scratch copy of the board and hands its
  verdict back; a failure of the solver is \<open>PROCESS_FAIL\<close>.
\<close>

definition is_valid_board :: "env \<Rightarrow> game_state \<Rightarrow> RETURN_STATUS" where
  "is_valid_board e g =
     (let n = N (g_board g);
          aux_board = copy_table (alloc_table n) (board (g_board g)) n;
          status = fst (solve_board_with_ILP e aux_board (block_rows (g_board g)) (block_cols (g_board g)))
      in if status = ALLOC_FAIL \<or> status = ILP_FAIL then PROCESS_FAIL else status)"

text \<open>
  The completion check shared by \<open>set\<close> and \<open>autofill\<close>: the messages and the state
  after \<open>is_valid_board\<close> has answered.
\<close>

definition completion_check :: "env \<Rightarrow> game_state \<Rightarrow> RETURN_STATUS \<times> game_state \<times> out list" where
  "completion_check e g =
     (let status = is_valid_board e g
      in if status = PROCESS_FAIL
         then (PROCESS_FAIL, g,
               [Printf ''Fatal error while validating board after all cells were filled.'' [],
                Printf ''Exiting program without freeing resources..'' []])
         else if status = BOARD_UNSOLVABLE
         then (PROCESS_SUCCESS, g, [Printf ''Puzzle solution erroneous'' []])
         else (PROCESS_SUCCESS, free_game g, [Printf ''Puzzle solved successfully'' []]))"

definition set_cmd :: "env \<Rightarrow> game_state \<Rightarrow> int \<Rightarrow> int \<Rightarrow> int \<Rightarrow> RETURN_STATUS \<times> game_state \<times> out list" where
  "set_cmd e g x y z =
     (let r = nat (y - 1); c = nat (x - 1)
      in if tget (fixed (g_board g)) r c \<noteq> 0
         then (PROCESS_SUCCESS, g, [Printf ''Error: cell is fixed'' []])
         else
           (let g1 = set_cell g r c z;
                (g2, os) = print_board g1
            in if mode g2 = Solve \<and> empty_cells_num (g_board g2) = 0
               then (case completion_check e g2 of (status, g3, os') \<Rightarrow> (status, g3, os @ os'))
               else (PROCESS_SUCCESS, g2, os)))"

definition validate :: "env \<Rightarrow> game_state \<Rightarrow> RETURN_STATUS \<times> game_state \<times> out list" where
  "validate e g =
     (let (is_erroneous, g1) = update_erroneous g
      in if is_erroneous \<noteq> 0
         then (PROCESS_SUCCESS, g1, [Printf ''Error: board contains erroneous values'' []])
         else
           (let status = is_valid_board e g1
            in if status = PROCESS_FAIL
               then (PROCESS_FAIL, g1,
                     [Printf ''Fatal error while validating board.'' [],
                      Printf ''Exiting program without freeing resources..'' []])
               else if status = BOARD_UNSOLVABLE
               then (PROCESS_SUCCESS, g1, [Printf ''Validation failed: board is unsolvable'' []])
               else (PROCESS_SUCCESS, g1, [Printf ''Validation passed: board is solvable'' []])))"


text \<open>
  \<open>random_value\<close> and \<open>random_guess\<close>. The scores are \<open>double\<close>s in the source and real
  numbers here; \<open>qsort\<close> with \<open>compare\<close> is ascending \<open>sort\<close>, \<open>modf\<close> on a non-negative
  number gives \<open>frac\<close>. The scan of \<open>random_value\<close> goes on with the next \<open>i\<close> when no
  \<open>p_arr[j]\<close> has the fractional part \<open>arr[i]\<close>, and the function returns \<open>0\<close> when the
  scan ends.
\<close>

fun random_value_scan :: "real list \<Rightarrow> real list \<Rightarrow> nat \<Rightarrow> real \<Rightarrow> nat list \<Rightarrow> int" where
  "random_value_scan arr p_arr n rv [] = 0"
| "random_value_scan arr p_arr n rv (i # ks) =
     (if rv < arr ! i
      then (case find (\<lambda>j. frac (p_arr ! j) = arr ! i) [0..<n] of
              Some j \<Rightarrow> int j + 1
            | None \<Rightarrow> random_value_scan arr p_arr n rv ks)
      else random_value_scan arr p_arr n (rv - arr ! i) ks)"

definition random_value :: "real list \<Rightarrow> real list \<Rightarrow> nat \<Rightarrow> nat \<Rightarrow> int" where
  "random_value arr p_arr n r =
     (let total = sum_list (take n arr);
          sorted_arr = sort (take n arr);
          rv = (real r / real RAND_MAX) * total
      in random_value_scan sorted_arr p_arr n rv [0..<n])"

definition random_guess_cell ::
  "nat \<Rightarrow> nat \<Rightarrow> real list \<Rightarrow> real \<Rightarrow> nat \<Rightarrow> nat \<Rightarrow> table \<times> rand_stream \<Rightarrow> table \<times> rand_stream" where
  "random_guess_cell block_rows' block_cols' sol x i j = (\<lambda>(brd, rs).
     let n = block_cols' * block_rows';
         score = (\<lambda>k. sol ! (i * n * n + j * n + k));
         ok = (\<lambda>k. score k \<ge> x \<and> tget brd i j = 0 \<and>
                    is_legal_value brd i j (int k + 1) block_rows' block_cols' = LEGAL_VALUE);
         cnt = length (filter ok [0..<n]);
         tmp = map (\<lambda>k. if ok k then score k else 0) [0..<n];
         p_tmp = map (\<lambda>k. if ok k then score k + real k else 0) [0..<n]
     in if cnt = 0 then (brd, rs)
        else if cnt = 1
        then (fold (\<lambda>k b. if tmp ! k > 0 then tset b i j (int k + 1) else b) [0..<n] brd, rs)
        else (case rand rs of (r, rs') \<Rightarrow> (tset brd i j (random_value tmp p_tmp n r), rs')))"

definition random_guess ::
  "table \<Rightarrow> nat \<Rightarrow> nat \<Rightarrow> real list \<Rightarrow> real \<Rightarrow> rand_stream \<Rightarrow> table \<times> rand_stream" where
  "random_guess brd block_rows' block_cols' sol x rs =
     (let n = block_cols' * block_rows'
      in fold (\<lambda>i. fold (\<lambda>j. random_guess_cell block_rows' block_cols' sol x i j) [0..<n]) [0..<n] (brd, rs))"

text \<open>
  \<open>guess\<close>. The move is built from the cells that were empty before and are filled now and
  is added to the list whether or not it has changes. \<open>random_guess\<close> writes the board of
  the game directly and \<open>empty_cells_num\<close> is not touched anywhere in the function.
\<close>

definition guess_move :: "table \<Rightarrow> table \<Rightarrow> nat \<Rightarrow> move_node" where
  "guess_move old_board new_board n =
     fold (\<lambda>r. fold (\<lambda>c m.
             if tget old_board r c = 0 \<and> tget new_board r c \<noteq> 0
             then add_change_to_move m r c (tget old_board r c) (tget new_board r c)
             else m) [0..<n]) [0..<n] alloc_move_node"

definition guess_cmd ::
  "env \<Rightarrow> rand_stream \<Rightarrow> game_state \<Rightarrow> real \<Rightarrow> RETURN_STATUS \<times> game_state \<times> out list \<times> rand_stream" where
  "guess_cmd e rs g x =
     (let br = block_rows (g_board g); bc = block_cols (g_board g); n = br * bc;
          old_board = copy_table (alloc_table n) (board (g_board g)) (N (g_board g));
          (is_erroneous, g1) = update_erroneous g
      in if is_erroneous \<noteq> 0
         then (PROCESS_SUCCESS, g1, [Printf ''Error: board contains erroneous values'' []], rs)
         else
           (let brd = copy_table (alloc_table (N (g_board g1))) (board (g_board g1)) (N (g_board g1));
                (status, sol) = solve_board_with_LP e brd (block_rows (g_board g1)) (block_cols (g_board g1))
            in if status = ALLOC_FAIL \<or> status = LP_FAIL
               then (PROCESS_FAIL, g1,
                     [Printf ''Fatal error while in guess.'' [],
                      Printf ''Exiting program without freeing resources..'' []], rs)
               else
                 (let (b', rs') = random_guess (board (g_board g1)) br bc sol x rs;
                      g2 = g1\<lparr>g_board := (g_board g1)\<lparr>board := b'\<rparr>\<rparr>;
                      (g3, os) = print_board g2;
                      m_node = guess_move old_board (board (g_board g3)) n
                  in (PROCESS_SUCCESS, g3\<lparr>m_list := add_move_node_to_list (m_list g3) m_node\<rparr>, os, rs'))))"

text \<open>
  \<open>find_all_legal_values\<close> empties the cell, collects the legal values in ascending order
  and restores the cell; the result is the filled prefix of \<open>legal_values_list\<close>, whose
  length is the returned number.
\<close>

definition find_all_legal_values :: "table \<Rightarrow> nat \<Rightarrow> nat \<Rightarrow> nat \<Rightarrow> nat \<Rightarrow> int list" where
  "find_all_legal_values brd r c block_rows' block_cols' =
     (let n = block_rows' * block_cols';
          b0 = tset brd r c 0
      in filter (\<lambda>val. is_legal_value b0 r c val block_rows' block_cols' = LEGAL_VALUE)
           (map int [1..<n + 1]))"

definition randomly_extract_a_cell ::
  "(nat \<times> nat) list \<Rightarrow> nat \<Rightarrow> rand_stream \<Rightarrow> ((nat \<times> nat) list \<times> nat \<times> (nat \<times> nat)) \<times> rand_stream" where
  "randomly_extract_a_cell cells_list len rs =
     (case rand rs of (r, rs') \<Rightarrow>
        (let chosen_indx = r mod len;
             cell = cells_list ! chosen_indx;
             cells_list' = (if chosen_indx < len - 1
                            then cells_list[chosen_indx := cells_list ! (len - 1)]
                            else cells_list)
         in ((cells_list', len - 1, cell), rs')))"

text \<open>The list of all cells in row-major order, as both generators fill it.\<close>

definition all_cells :: "nat \<Rightarrow> (nat \<times> nat) list" where
  "all_cells n = concat (map (\<lambda>i. map (\<lambda>j. (i, j)) [0..<n]) [0..<n])"

fun fill_loop ::
  "nat \<Rightarrow> nat \<Rightarrow> nat \<Rightarrow> table \<Rightarrow> (nat \<times> nat) list \<Rightarrow> nat \<Rightarrow> rand_stream \<Rightarrow> (RETURN_STATUS \<times> table) \<times> rand_stream" where
  "fill_loop br bc 0 brd cells len rs = ((FILL_SUCCESS, brd), rs)"
| "fill_loop br bc (Suc x) brd cells len rs =
     (case randomly_extract_a_cell cells len rs of ((cells', len', cell), rs1) \<Rightarrow>
        (let vals = find_all_legal_values brd (fst cell) (snd cell) br bc
         in if length vals = 0 then ((FILL_FAIL, brd), rs1)
            else (case rand rs1 of (r, rs2) \<Rightarrow>
                    fill_loop br bc x (tset brd (fst cell) (snd cell) (vals ! (r mod length vals)))
                      cells' len' rs2)))"

definition randomly_fill_a_legal_board ::
  "table \<Rightarrow> nat \<Rightarrow> nat \<Rightarrow> nat \<Rightarrow> rand_stream \<Rightarrow> (RETURN_STATUS \<times> table) \<times> rand_stream" where
  "randomly_fill_a_legal_board brd x block_rows' block_cols' rs =
     (let n = block_rows' * block_cols'
      in if x = 0 then ((FILL_SUCCESS, brd), rs)
         else fill_loop block_rows' block_cols' x brd (all_cells n) (n * n) rs)"

text \<open>
  \<open>randomly_generate_board\<close>: \<open>generate_loop\<close> is the \<open>while\<close> loop over the remaining
  number of tries, which starts at 1000.
\<close>

fun generate_loop ::
  "env \<Rightarrow> nat \<Rightarrow> nat \<Rightarrow> nat \<Rightarrow> nat \<Rightarrow> nat \<Rightarrow> table \<Rightarrow> table \<Rightarrow> rand_stream \<Rightarrow> (RETURN_STATUS \<times> table) \<times> rand_stream" where
  "generate_loop e 0 br bc n x old_board brd rs = ((GENERATE_FAIL, brd), rs)"
| "generate_loop e (Suc tries) br bc n x old_board brd rs =
     (case randomly_fill_a_legal_board brd x br bc rs of ((status, brd1), rs1) \<Rightarrow>
        if status = FILL_SUCCESS
        then (case solve_board_with_ILP e brd1 br bc of (status2, brd2) \<Rightarrow>
                if status2 = ALLOC_FAIL \<or> status2 = ILP_FAIL then ((PROCESS_FAIL, brd2), rs1)
                else if status2 = BOARD_SOLVABLE then ((GENERATE_SUCCESS, brd2), rs1)
                else generate_loop e tries br bc n x old_board (copy_table brd2 old_board n) rs1)
        else generate_loop e tries br bc n x old_board (copy_table brd1 old_board n) rs1)"

definition randomly_generate_board ::
  "env \<Rightarrow> game_state \<Rightarrow> nat \<Rightarrow> rand_stream \<Rightarrow> (RETURN_STATUS \<times> game_state) \<times> rand_stream" where
  "randomly_generate_board e g x rs =
     (let gb = g_board g;
          old_board = copy_table (alloc_table (N gb)) (board gb) (N gb)
      in case generate_loop e 1000 (block_rows gb) (block_cols gb) (N gb) x old_board (board gb) rs of
           ((status, b), rs') \<Rightarrow> ((status, g\<lparr>g_board := gb\<lparr>board := b\<rparr>\<rparr>), rs'))"

fun extract_loop ::
  "nat \<Rightarrow> (nat \<times> nat) list \<Rightarrow> nat \<Rightarrow> rand_stream \<Rightarrow> ((nat \<times> nat) list \<times> nat) \<times> rand_stream" where
  "extract_loop 0 cells len rs = ((cells, len), rs)"
| "extract_loop (Suc y) cells len rs =
     (case randomly_extract_a_cell cells len rs of ((cells', len', cell), rs') \<Rightarrow>
        extract_loop y cells' len' rs')"

definition partially_clear_board :: "table \<Rightarrow> nat \<Rightarrow> nat \<Rightarrow> rand_stream \<Rightarrow> table \<times> rand_stream" where
  "partially_clear_board brd y n rs =
     (let num_filled_cells = n * n;
          num_empty_cells = num_filled_cells - y
      in if y = num_filled_cells then (brd, rs)
         else (case extract_loop y (all_cells n) num_filled_cells rs of ((cells, len), rs') \<Rightarrow>
                 (fold (\<lambda>i b. tset b (fst (cells ! i)) (snd (cells ! i)) 0) [0..<num_empty_cells] brd,
                  rs')))"

text \<open>
  \<open>generate\<close>. The move gets a change for every cell that is filled before or after, and it
  is added to the list exactly when \<open>y > 0\<close>.
\<close>

definition generate_move :: "table \<Rightarrow> table \<Rightarrow> nat \<Rightarrow> move_node" where
  "generate_move old_board new_board n =
     fold (\<lambda>r. fold (\<lambda>c m.
             if tget new_board r c \<noteq> 0 \<or> tget old_board r c \<noteq> 0
             then add_change_to_move m r c (tget old_board r c) (tget new_board r c)
             else m) [0..<n]) [0..<n] alloc_move_node"

definition generate ::
  "env \<Rightarrow> rand_stream \<Rightarrow> game_state \<Rightarrow> nat \<Rightarrow> nat \<Rightarrow> RETURN_STATUS \<times> game_state \<times> out list \<times> rand_stream" where
  "generate e rs g x y =
     (let n = N (g_board g)
      in if empty_cells_num (g_board g) < int x
         then (PROCESS_SUCCESS, g, [Printf ''Error: number of empty cells too low'' []], rs)
         else
           (let old_board = copy_table (alloc_table n) (board (g_board g)) n
            in case randomly_generate_board e g x rs of ((status, g1), rs1) \<Rightarrow>
                 if status = PROCESS_FAIL
                 then (PROCESS_FAIL, g1,
                       [Printf ''Fatal error while generating board.'' [],
                        Printf ''Exiting program without freeing resources..'' []], rs1)
                 else if status = GENERATE_FAIL
                 then (PROCESS_SUCCESS, g1, [Printf ''Error: puzzle generator failed'' []], rs1)
                 else
                   (case partially_clear_board (board (g_board g1)) y (N (g_board g1)) rs1 of
                      (b2, rs2) \<Rightarrow>
                        (let g2 = g1\<lparr>g_board := (g_board g1)\<lparr>board := b2\<rparr>\<rparr>;
                             m_node = generate_move old_board b2 n;
                             g3 = (if y > 0
                                   then g2\<lparr>m_list := add_move_node_to_list (m_list g2) m_node\<rparr>
                                   else g2);
                             (g4, os) = print_board g3;
                             g5 = g4\<lparr>g_board := (g_board g4)\<lparr>empty_cells_num := int (n * n) - int y\<rparr>\<rparr>
                         in (PROCESS_SUCCESS, g5, os, rs2)))))"


text \<open>
  \<open>change_cell\<close> is used by undo, redo, reset and autofill; \<open>frm\<close> is the value the caller
  says the cell has, \<open>tov\<close> the value written.
\<close>

definition change_cell :: "game_state \<Rightarrow> nat \<Rightarrow> nat \<Rightarrow> int \<Rightarrow> int \<Rightarrow> game_state" where
  "change_cell g r c frm tov =
     (let before_filled = (if frm \<noteq> 0 then 1 else 0);
          after_filled = (if tov \<noteq> 0 then 1 else (0::int))
      in g\<lparr>g_board := (g_board g)\<lparr>board := tset (board (g_board g)) r c tov,
                                   empty_cells_num := empty_cells_num (g_board g) - (after_filled - before_filled)\<rparr>\<rparr>)"

text \<open>
  The \<open>while (c_node_p)\<close> loops of undo and reset revert the changes of a move from the head
  of its list on; the loop of redo applies them in the same order.
\<close>

definition revert_changes :: "change_node list \<Rightarrow> game_state \<Rightarrow> game_state" where
  "revert_changes cs g = fold (\<lambda>c s. change_cell s (cell_rows c) (cell_cols c) (z2 c) (z1 c)) cs g"

definition apply_changes :: "change_node list \<Rightarrow> game_state \<Rightarrow> game_state" where
  "apply_changes cs g = fold (\<lambda>c s. change_cell s (cell_rows c) (cell_cols c) (z1 c) (z2 c)) cs g"

definition undo :: "game_state \<Rightarrow> RETURN_STATUS \<times> game_state \<times> out list" where
  "undo g =
     (if \<not> can_undo (m_list g)
      then (PROCESS_SUCCESS, g, [Printf ''Error: no moves to undo'' []])
      else
        (let g1 = revert_changes (get_curr_pointer_changes_iter (m_list g)) g;
             (g2, os) = print_board g1;
             msgs = map (\<lambda>c. Printf ''Undo %d,%d: from %s to %s''
                                 [int (cell_cols c) + 1, int (cell_rows c) + 1, z2 c, z1 c])
                        (get_curr_pointer_changes_iter (m_list g2))
         in (PROCESS_SUCCESS, g2\<lparr>m_list := dec_curr_pointer (m_list g2)\<rparr>, os @ msgs)))"

definition redo :: "game_state \<Rightarrow> RETURN_STATUS \<times> game_state \<times> out list" where
  "redo g =
     (if \<not> can_redo (m_list g)
      then (PROCESS_SUCCESS, g, [Printf ''Error: no moves to redo'' []])
      else
        (let g1 = g\<lparr>m_list := inc_curr_pointer (m_list g)\<rparr>;
             g2 = apply_changes (get_curr_pointer_changes_iter (m_list g1)) g1;
             (g3, os) = print_board g2;
             msgs = map (\<lambda>c. Printf ''Redo %d,%d: from %s to %s''
                                 [int (cell_cols c) + 1, int (cell_rows c) + 1, z1 c, z2 c])
                        (get_curr_pointer_changes_iter (m_list g3))
         in (PROCESS_SUCCESS, g3, os @ msgs)))"

text \<open>
  \<open>save\<close>: in Edit mode the board is checked first and \<open>save_game\<close> sees the table of
  values in place of the table of clue marks; the pointer is put back afterwards, so the
  state that is returned has the table it had.
\<close>

definition save :: "env \<Rightarrow> game_state \<Rightarrow> string \<Rightarrow> RETURN_STATUS \<times> game_state \<times> out list" where
  "save e g path =
     (let finish = (\<lambda>g' gb.
            case save_game e gb path of (status, os) \<Rightarrow>
              (PROCESS_SUCCESS, g',
               os @ [if status = IO_FAIL then Printf ''Error: File cannot be created or modified'' []
                     else PrintfPath ''Saved in file: %s'' path]))
      in if mode g = Edit
         then
           (let (is_erroneous, g1) = update_erroneous g
            in if is_erroneous \<noteq> 0
               then (PROCESS_SUCCESS, g1, [Printf ''Error: board contains erroneous values'' []])
               else
                 (let status = is_valid_board e g1
                  in if status = PROCESS_FAIL
                     then (PROCESS_FAIL, g1,
                           [Printf ''Fatal error while validating board.'' [],
                            Printf ''Exiting program without freeing resources..'' []])
                     else if status = BOARD_UNSOLVABLE
                     then (PROCESS_SUCCESS, g1, [Printf ''Error: board validation failed'' []])
                     else finish g1 ((g_board g1)\<lparr>fixed := board (g_board g1)\<rparr>)))
         else finish g (g_board g))"

definition hint :: "env \<Rightarrow> game_state \<Rightarrow> int \<Rightarrow> int \<Rightarrow> RETURN_STATUS \<times> game_state \<times> out list" where
  "hint e g x y =
     (let r = nat (y - 1); c = nat (x - 1);
          (is_erroneous, g1) = update_erroneous g
      in if is_erroneous \<noteq> 0
         then (PROCESS_SUCCESS, g1, [Printf ''Error: board contains erroneous values'' []])
         else if tget (fixed (g_board g1)) r c \<noteq> 0
         then (PROCESS_SUCCESS, g1, [Printf ''Error: cell is fixed'' []])
         else if tget (board (g_board g1)) r c \<noteq> 0
         then (PROCESS_SUCCESS, g1, [Printf ''Error: cell already contains a value'' []])
         else
           (let brd = copy_table (alloc_table (N (g_board g1))) (board (g_board g1)) (N (g_board g1));
                (status, solved) = solve_board_with_ILP e brd (block_rows (g_board g1)) (block_cols (g_board g1))
            in if status = ALLOC_FAIL \<or> status = ILP_FAIL
               then (PROCESS_FAIL, g1,
                     [Printf ''Fatal error while getting a hint.'' [],
                      Printf ''Exiting program without freeing resources..'' []])
               else if status = BOARD_SOLVABLE
               then (PROCESS_SUCCESS, g1, [Printf ''Hint: set cell to %d'' [tget solved r c]])
               else (PROCESS_SUCCESS, g1, [Printf ''Error: board is unsolvable'' []])))"

definition guess_hint :: "env \<Rightarrow> game_state \<Rightarrow> int \<Rightarrow> int \<Rightarrow> RETURN_STATUS \<times> game_state \<times> out list" where
  "guess_hint e g x y =
     (let br = block_rows (g_board g); bc = block_cols (g_board g);
          r = nat (y - 1); c = nat (x - 1); n = br * bc;
          (is_erroneous, g1) = update_erroneous g
      in if is_erroneous \<noteq> 0
         then (PROCESS_SUCCESS, g1, [Printf ''Error: board contains erroneous values'' []])
         else if tget (fixed (g_board g1)) r c \<noteq> 0
         then (PROCESS_SUCCESS, g1, [Printf ''Error: cell is fixed'' []])
         else if tget (board (g_board g1)) r c \<noteq> 0
         then (PROCESS_SUCCESS, g1, [Printf ''Error: cell already contains a value'' []])
         else
           (let brd = copy_table (alloc_table (N (g_board g1))) (board (g_board g1)) (N (g_board g1));
                (status, sol) = solve_board_with_LP e brd (block_rows (g_board g1)) (block_cols (g_board g1))
            in if status = ALLOC_FAIL \<or> status = LP_FAIL
               then (PROCESS_FAIL, g1,
                     [Printf ''Fatal error while guessing hint.'' [],
                      Printf ''Exiting program without freeing resources..'' []])
               else if status = BOARD_SOLVABLE
               then (PROCESS_SUCCESS, g1,
                     Printf ''The legal values (and their scores) for %d %d:'' [int c + 1, int r + 1]
                     # map (\<lambda>k. PrintfScore (int k + 1) (sol ! (r * n * n + c * n + k)))
                         (filter (\<lambda>k. sol ! (r * n * n + c * n + k) > 0) [0..<n]))
               else (PROCESS_SUCCESS, g1, [Printf ''Error: board is unsolvable'' []])))"

text \<open>
  \<open>num_solutions\<close> runs \<open>backTrack\<close> on a copy of the board; the command returns when
  \<open>backTrack\<close> does. The count is printed with \<open>%d\<close>, that is as a signed number.
\<close>

definition num_solutions :: "game_state \<Rightarrow> (RETURN_STATUS \<times> game_state \<times> out list) option" where
  "num_solutions g =
     (let (is_erroneous, g1) = update_erroneous g
      in if is_erroneous \<noteq> 0
         then Some (PROCESS_SUCCESS, g1, [Printf ''Error: board contains erroneous values'' []])
         else
           (let brd = copy_table (alloc_table (N (g_board g1))) (board (g_board g1)) (N (g_board g1))
            in case backTrack brd (block_rows (g_board g1)) (block_cols (g_board g1)) of
                 None \<Rightarrow> None
               | Some (status, num_of_solutions, brd') \<Rightarrow>
                   Some (PROCESS_SUCCESS, g1, [Printf ''Number of solutions: %d'' [sint num_of_solutions]])))"



text \<open>
  \<open>reset\<close>: the loop runs while \<open>can_undo\<close> holds; each round reverts the move under the
  cursor and moves the cursor back.
\<close>

function reset_loop :: "game_state \<Rightarrow> game_state" where
  "reset_loop g =
     (if can_undo (m_list g)
      then reset_loop
             ((revert_changes (get_curr_pointer_changes_iter (m_list g)) g)
                \<lparr>m_list := dec_curr_pointer (m_list g)\<rparr>)
      else g)"
  by pat_completeness auto
termination
  by (relation "measure (\<lambda>g. curr_pointer (m_list g))")
     (auto simp: can_undo_def dec_curr_pointer_def)

declare reset_loop.simps [simp del]

definition reset :: "game_state \<Rightarrow> RETURN_STATUS \<times> game_state \<times> out list" where
  "reset g = (let (g1, os) = print_board (reset_loop g) in (PROCESS_SUCCESS, g1, os))"

text \<open>
  \<open>autofill\<close>: the legal values of every empty cell are computed on the copy \<open>old_board\<close>
  taken before the loop, and the changes go to the board of the game.
\<close>

definition autofill_cell ::
  "table \<Rightarrow> nat \<Rightarrow> nat \<Rightarrow> game_state \<times> move_node \<times> out list \<Rightarrow> game_state \<times> move_node \<times> out list" where
  "autofill_cell old_board r c = (\<lambda>(g, m_node, os).
     if tget old_board r c = 0
     then
       (let vals = find_all_legal_values old_board r c (block_rows (g_board g)) (block_cols (g_board g))
        in if length vals = 1
           then (change_cell g r c 0 (vals ! 0),
                 add_change_to_move m_node r c 0 (vals ! 0),
                 os @ [Printf ''Cell <%d,%d> set to %d'' [int c + 1, int r + 1, vals ! 0]])
           else (g, m_node, os))
     else (g, m_node, os))"

text \<open>
  \<open>autofill_fill\<close> is the part of \<open>autofill\<close> between the check for erroneous values
  and the completion check: the loop over the cells, the move added to the list when it
  has a change, and the print of the board.
\<close>

definition autofill_fill :: "game_state \<Rightarrow> game_state \<times> out list" where
  "autofill_fill g1 =
     (let n = N (g_board g1);
          old_board = copy_table (alloc_table n) (board (g_board g1)) n;
          (g2, m_node, os) =
             fold (\<lambda>r. fold (\<lambda>c. autofill_cell old_board r c) [0..<n]) [0..<n]
               (g1, alloc_move_node, []);
          g3 = (if m_node \<noteq> []
                then g2\<lparr>m_list := add_move_node_to_list (m_list g2) m_node\<rparr>
                else g2);
          (g4, os') = print_board g3
      in (g4, os @ os'))"

definition autofill :: "env \<Rightarrow> game_state \<Rightarrow> RETURN_STATUS \<times> game_state \<times> out list" where
  "autofill e g =
     (let (is_erroneous, g1) = update_erroneous g
      in if is_erroneous \<noteq> 0
         then (PROCESS_SUCCESS, g1, [Printf ''Error: board contains erroneous values'' []])
         else
           (let (g4, os) = autofill_fill g1
            in if empty_cells_num (g_board g4) = 0
               then (case completion_check e g4 of (status, g5, os') \<Rightarrow> (status, g5, os @ os'))
               else (PROCESS_SUCCESS, g4, os)))"

section \<open>Game\_Operator.c\<close>

definition print_available_modes :: "nat \<Rightarrow> out list" where
  "print_available_modes i =
     (if i = 0 then [Printf ''available in Solve and Edit modes'' []]
      else if i = 1 then [Printf ''available in Solve mode only'' []]
      else if i = 2 then [Printf ''available in Edit mode only'' []]
      else [])"

definition print_invalid_mode :: "command \<Rightarrow> out list" where
  "print_invalid_mode cmd_p =
     Printf ''ERROR: command unavailable in current mode, it is '' [] #
     (if cmd_type cmd_p \<in> {PRINT_BOARD, VALIDATE, UNDO, REDO, NUM_SOLUTIONS, RESET, SAVE, SET}
      then print_available_modes 0
      else if cmd_type cmd_p \<in> {GUESS_HINT, AUTOFILL, HINT, MARK_ERRORS, GUESS}
      then print_available_modes 1
      else if cmd_type cmd_p = GENERATE then print_available_modes 2
      else [Printf ''not supposed to be here.'' []])"

definition process_set :: "env \<Rightarrow> command \<Rightarrow> game_state \<Rightarrow> RETURN_STATUS \<times> game_state \<times> out list" where
  "process_set e cmd_p g =
     (let n = int (N (g_board g));
          ps = parameters cmd_p;
          is_valid_set = list_all (\<lambda>i. \<not> ps ! i < 1 - int (i div 2) \<and> \<not> ps ! i > n) [0..<3]
      in if is_valid_set then set_cmd e g (ps ! 0) (ps ! 1) (ps ! 2)
         else (PROCESS_SUCCESS, g, [Printf ''Error: value not in range 0-%d'' [n]]))"

definition process_generate ::
  "env \<Rightarrow> rand_stream \<Rightarrow> command \<Rightarrow> game_state \<Rightarrow> RETURN_STATUS \<times> game_state \<times> out list \<times> rand_stream" where
  "process_generate e rs cmd_p g =
     (let E = int (N (g_board g)) * int (N (g_board g));
          ps = parameters cmd_p;
          is_valid_generate = list_all (\<lambda>i. \<not> ps ! i < 0 \<and> \<not> ps ! i > E) [0..<2]
      in if is_valid_generate then generate e rs g (nat (ps ! 0)) (nat (ps ! 1))
         else (PROCESS_SUCCESS, g, [Printf ''Error: value not in range 0-%d'' [E]], rs))"

definition process_hint :: "env \<Rightarrow> command \<Rightarrow> game_state \<Rightarrow> RETURN_STATUS \<times> game_state \<times> out list" where
  "process_hint e cmd_p g =
     (let n = int (N (g_board g));
          ps = parameters cmd_p;
          is_valid_hint = list_all (\<lambda>i. \<not> ps ! i < 1 \<and> \<not> ps ! i > n) [0..<2]
      in if is_valid_hint then hint e g (ps ! 0) (ps ! 1)
         else (PROCESS_SUCCESS, g, [Printf ''Error: value not in range 1-%d'' [n]]))"

definition process_guess_hint :: "env \<Rightarrow> command \<Rightarrow> game_state \<Rightarrow> RETURN_STATUS \<times> game_state \<times> out list" where
  "process_guess_hint e cmd_p g =
     (let n = int (N (g_board g));
          ps = parameters cmd_p;
          is_valid_guess_hint = list_all (\<lambda>i. \<not> ps ! i < 1 \<and> \<not> ps ! i > n) [0..<2]
      in if is_valid_guess_hint then guess_hint e g (ps ! 0) (ps ! 1)
         else (PROCESS_SUCCESS, g, [Printf ''Error: value not in range 1-%d'' [n]]))"

definition process_mark_errors :: "command \<Rightarrow> game_state \<Rightarrow> RETURN_STATUS \<times> game_state \<times> out list" where
  "process_mark_errors cmd_p g =
     (let p0 = parameters cmd_p ! 0
      in if p0 = 0 \<or> p0 = 1 then (PROCESS_SUCCESS, g\<lparr>mark_errors := p0\<rparr>, [])
         else (PROCESS_SUCCESS, g, [Printf ''Error: the value should be 0 or 1'' []]))"

definition process_guess ::
  "env \<Rightarrow> rand_stream \<Rightarrow> command \<Rightarrow> game_state \<Rightarrow> RETURN_STATUS \<times> game_state \<times> out list \<times> rand_stream" where
  "process_guess e rs cmd_p g =
     (if para cmd_p > 1 \<or> para cmd_p < 0
      then (PROCESS_SUCCESS, g, [Printf ''Error: the value should be from 0 to 1'' []], rs)
      else guess_cmd e rs g (para cmd_p))"

text \<open>
  The parser gives \<open>solve\<close> and \<open>save\<close> a path; a \<open>NULL\<close> pointer is read as the empty
  path here.
\<close>

definition path_string :: "string option \<Rightarrow> string" where
  "path_string p = (case p of None \<Rightarrow> [] | Some q \<Rightarrow> q)"

definition process_command_init :: "env \<Rightarrow> command \<Rightarrow> game_state \<Rightarrow> RETURN_STATUS \<times> game_state \<times> out list" where
  "process_command_init e cmd_p g =
     (if cmd_type cmd_p = SOLVE then solve e g (path_string (file_path cmd_p))
      else if cmd_type cmd_p = EDIT then edit e g (file_path cmd_p)
      else (PROCESS_SUCCESS, g, print_invalid_mode cmd_p))"

text \<open>
  \<open>process_command\<close>. Commands that do not call \<open>rand()\<close> leave the stream as it is; the
  result is \<open>None\<close> only when \<open>num_solutions\<close> does not return.
\<close>

definition process_command ::
  "env \<Rightarrow> rand_stream \<Rightarrow> command \<Rightarrow> game_state \<Rightarrow> (RETURN_STATUS \<times> game_state \<times> out list \<times> rand_stream) option" where
  "process_command e rs cmd_p g =
     (let pure = (\<lambda>res. case res of (status, g', os) \<Rightarrow> Some (status, g', os, rs));
          solve_only = (\<lambda>res. if mode g \<noteq> Solve
                               then Some (PROCESS_SUCCESS, g, print_invalid_mode cmd_p, rs)
                               else res)
      in if mode g = Init then pure (process_command_init e cmd_p g)
         else
           (case cmd_type cmd_p of
              SOLVE \<Rightarrow> pure (solve e g (path_string (file_path cmd_p)))
            | EDIT \<Rightarrow> pure (edit e g (file_path cmd_p))
            | PRINT_BOARD \<Rightarrow> (case print_board g of (g', os) \<Rightarrow> Some (PROCESS_SUCCESS, g', os, rs))
            | VALIDATE \<Rightarrow> pure (validate e g)
            | GUESS_HINT \<Rightarrow> solve_only (pure (process_guess_hint e cmd_p g))
            | UNDO \<Rightarrow> pure (undo g)
            | REDO \<Rightarrow> pure (redo g)
            | NUM_SOLUTIONS \<Rightarrow>
                (case num_solutions g of None \<Rightarrow> None | Some res \<Rightarrow> pure res)
            | RESET \<Rightarrow> pure (reset g)
            | AUTOFILL \<Rightarrow> solve_only (pure (autofill e g))
            | SAVE \<Rightarrow> pure (save e g (path_string (file_path cmd_p)))
            | HINT \<Rightarrow> solve_only (pure (process_hint e cmd_p g))
            | GENERATE \<Rightarrow>
                (if mode g \<noteq> Edit then Some (PROCESS_SUCCESS, g, print_invalid_mode cmd_p, rs)
                 else Some (process_generate e rs cmd_p g))
            | GUESS \<Rightarrow> solve_only (Some (process_guess e rs cmd_p g))
            | MARK_ERRORS \<Rightarrow> solve_only (pure (process_mark_errors cmd_p g))
            | SET \<Rightarrow> pure (process_set e cmd_p g)
            | _ \<Rightarrow> Some (PROCESS_FAIL, g, [Printf ''ERROR: invalid command'' []], rs)))"

text \<open>
  The states of a run: \<open>initialize_game_aux_struct\<close> gives the first one, and every
  command that \<open>process_command\<close> completes with \<open>PROCESS_SUCCESS\<close> gives the next (after
  \<open>PROCESS_FAIL\<close> the program exits).
\<close>

definition initialize_game_aux_struct :: "game_state \<Rightarrow> game_state" where
  "initialize_game_aux_struct g = g\<lparr>mode := Init, mark_errors := 1, valid := 0\<rparr>"

inductive reachable :: "env \<Rightarrow> game_state \<Rightarrow> bool" for e :: env where
  reachable_init: "reachable e (initialize_game_aux_struct g)"
| reachable_step:
    "reachable e g \<Longrightarrow> process_command e rs cmd_p g = Some (PROCESS_SUCCESS, g', os, rs') \<Longrightarrow>
     reachable e g'"


section \<open>Notions used in the statements\<close>

text \<open>
  A table is well formed for \<open>n\<close> when it has \<open>n\<close> rows of \<open>n\<close> cells, and a board
  structure is well formed when its block sizes are positive, \<open>N\<close> is their product and
  its three tables are \<open>N\<close> by \<open>N\<close>. These are the boards \<open>load_game\<close> and \<open>edit\<close>
  build, and on them every table access of the program is inside the table.
\<close>

definition wf_table :: "nat \<Rightarrow> table \<Rightarrow> bool" where
  "wf_table n t = (length t = n \<and> list_all (\<lambda>r. length r = n) t)"

definition wf_board :: "game_board \<Rightarrow> bool" where
  "wf_board gb =
     (0 < block_rows gb \<and> 0 < block_cols gb \<and> N gb = block_rows gb * block_cols gb \<and>
      wf_table (N gb) (board gb) \<and> wf_table (N gb) (err gb) \<and> wf_table (N gb) (fixed gb))"

text \<open>
  Two cells are related when they share a row, a column or a block; the block of a cell
  is given by the quotients of its coordinates by the block sizes. The value of the cell
  \<open>(i, j)\<close> is in conflict when another cell related to it holds the same value.
\<close>

definition related :: "nat \<Rightarrow> nat \<Rightarrow> nat \<Rightarrow> nat \<Rightarrow> nat \<Rightarrow> nat \<Rightarrow> bool" where
  "related br bc i j i' j' = (i = i' \<or> j = j' \<or> (i' div br = i div br \<and> j' div bc = j div bc))"

definition conflict :: "table \<Rightarrow> nat \<Rightarrow> nat \<Rightarrow> nat \<Rightarrow> nat \<Rightarrow> bool" where
  "conflict b br bc i j =
     list_ex (\<lambda>i'. list_ex (\<lambda>j'. (i' \<noteq> i \<or> j' \<noteq> j) \<and> related br bc i j i' j' \<and>
                                   tget b i' j' = tget b i j) [0..<br * bc]) [0..<br * bc]"

definition bad_cell :: "game_board \<Rightarrow> nat \<Rightarrow> nat \<Rightarrow> bool" where
  "bad_cell gb i j = (tget (board gb) i j \<noteq> 0 \<and> conflict (board gb) (block_rows gb) (block_cols gb) i j)"

definition err_value :: "game_board \<Rightarrow> nat \<Rightarrow> nat \<Rightarrow> int" where
  "err_value gb i j = (if bad_cell gb i j \<and> tget (fixed gb) i j = 0 then 1 else 0)"

text \<open>\<open>err_only g g'\<close>: the state \<open>g'\<close> is \<open>g\<close> but for the contents of the table \<open>err\<close>.\<close>

definition err_only :: "game_state \<Rightarrow> game_state \<Rightarrow> bool" where
  "err_only g g' = (g' = g\<lparr>g_board := (g_board g)\<lparr>err := err (g_board g')\<rparr>\<rparr>)"

text \<open>
  \<open>keeps g g'\<close>: the table of clue marks and \<open>N\<close> are the same, and the mode is the
  same or has gone back to \<open>Init\<close>.
\<close>

definition keeps :: "game_state \<Rightarrow> game_state \<Rightarrow> bool" where
  "keeps g g' = (fixed (g_board g') = fixed (g_board g) \<and> N (g_board g') = N (g_board g) \<and>
                 (mode g' = mode g \<or> mode g' = Init))"

text \<open>In Edit mode no cell is marked as a clue.\<close>

definition edit_inv :: "game_state \<Rightarrow> bool" where
  "edit_inv g = (mode g = Edit \<longrightarrow> fixed (g_board g) = alloc_table (N (g_board g)))"

text \<open>The table of clue marks of a load in progress is \<open>F\<close>.\<close>

definition fixed_is :: "table \<Rightarrow> load_state option \<Rightarrow> bool" where
  "fixed_is F s = (case s of None \<Rightarrow> True | Some (b, f, k, t) \<Rightarrow> f = F)"

text \<open>
  \<open>filled v\<close> is the C value of \<open>v != 0\<close>. A moves list is well formed when its cursor
  points to the sentinel or to one of its nodes. A change fits a state when its cell is
  inside the board and holds the value the change has as its value after the move.
\<close>

definition filled :: "int \<Rightarrow> int" where
  "filled v = (if v \<noteq> 0 then 1 else 0)"




section \<open>Concrete inputs\<close>

text \<open>
  A 2 by 2 board with blocks of one row and two columns: the two 1s of the first row
  are in conflict, and the first of them is a clue.
\<close>

definition dup_state :: game_state where
  "dup_state =
     \<lparr>mode = Solve, mark_errors = 1, m_list = init_moves_list,
      g_board = \<lparr>board = [[1, 1], [0, 2]], err = [[0, 0], [0, 0]], fixed = [[1, 0], [0, 0]],
                 block_cols = 2, block_rows = 1, N = 2, empty_cells_num = 1\<rparr>,
      valid = 1\<rparr>"

text \<open>
  An environment for boards of one cell, whose only completion is the value 1: the
  solvers answer as Gurobi does on such a board, and the file \<open>p1\<close> holds the empty
  one-cell puzzle.
\<close>

definition env1 :: env where
  "env1 =
     \<lparr>solve_board_with_ILP = (\<lambda>b br bc. (BOARD_SOLVABLE, [[1]])),
      solve_board_with_LP = (\<lambda>b br bc. (BOARD_SOLVABLE, [1])),
      read_file = (\<lambda>p. if p = ''p1'' then Some \<lparr>pf_header = [1, 1], pf_cells = [(0, False)]\<rparr> else None),
      write_ok = (\<lambda>p. True)\<rparr>"

text \<open>The state right after \<open>initialize_game_aux_struct\<close>.\<close>

definition start_state :: game_state where
  "start_state =
     initialize_game_aux_struct
       \<lparr>mode = Init, mark_errors = 0, m_list = init_moves_list,
        g_board = \<lparr>board = [], err = [], fixed = [], block_cols = 0, block_rows = 0, N = 0,
                   empty_cells_num = 0\<rparr>,
        valid = 0\<rparr>"

text \<open>The board structure of a one-cell puzzle holding \<open>v\<close>, without clue.\<close>

definition one_cell_board :: "int \<Rightarrow> game_board" where
  "one_cell_board v =
     \<lparr>board = [[v]], err = [[0]], fixed = [[0]], block_cols = 1, block_rows = 1, N = 1,
      empty_cells_num = (if v = 0 then 1 else 0)\<rparr>"

text \<open>The states after \<open>solve p1\<close> and after \<open>edit p1\<close>.\<close>

definition solve1_state :: game_state where
  "solve1_state =
     \<lparr>mode = Solve, mark_errors = 1, m_list = init_moves_list, g_board = one_cell_board 0, valid = 1\<rparr>"

definition edit1_state :: game_state where
  "edit1_state =
     \<lparr>mode = Edit, mark_errors = 1, m_list = init_moves_list, g_board = one_cell_board 0, valid = 1\<rparr>"

text \<open>The command \<open>edit p1\<close> as the parser hands it over.\<close>

definition edit_p1 :: command where
  "edit_p1 = \<lparr>cmd_type = EDIT, parameters = [], para = 0, file_path = Some ''p1''\<rparr>"





section \<open>Tables and legality\<close>

lemma wf_table_row: "wf_table n t \<Longrightarrow> i < n \<Longrightarrow> length (t ! i) = n"
  by (simp add: wf_table_def list_all_length)

lemma map_length_tset: "map length (tset t i j v) = map length t"
  by (cases "i < length t") (simp_all add: tset_def map_update list_update_beyond list_update_same_conv)

lemma wf_table_alt: "wf_table n t \<longleftrightarrow> map length t = replicate n n"
proof
  assume w: "wf_table n t"
  then have "map length t = map (\<lambda>_. n) t"
    by (simp add: wf_table_def list_all_iff)
  then show "map length t = replicate n n"
    using w by (simp add: map_replicate_const wf_table_def)
next
  assume m: "map length t = replicate n n"
  then have "length (map length t) = n" by simp
  moreover have "set (map length t) \<subseteq> {n}" using m by (simp add: set_replicate_conv_if)
  ultimately show "wf_table n t" by (auto simp: wf_table_def list_all_iff)
qed

lemma wf_table_tset [simp]: "wf_table n (tset t i j v) = wf_table n t"
  by (simp add: wf_table_alt map_length_tset)

lemma tget_tset:
  "wf_table n t \<Longrightarrow> i < n \<Longrightarrow> j < n \<Longrightarrow>
   tget (tset t i j v) i' j' = (if i' = i \<and> j' = j then v else tget t i' j')"
  by (auto simp: tget_def tset_def wf_table_def list_all_length nth_list_update)

lemma tset_tset [simp]: "tset (tset t i j a) i j b = tset t i j b"
  by (cases "i < length t") (simp_all add: tset_def list_update_beyond)

lemma tset_same: "tget t i j = v \<Longrightarrow> tset t i j v = t"
  by (auto simp: tset_def tget_def)

lemma block_index:
  fixes br bc i :: nat
  assumes "0 < br" "i < br * bc"
  shows "(\<exists>l<br. P (i div br * br + l)) \<longleftrightarrow> (\<exists>i'<br * bc. i' div br = i div br \<and> P i')"
proof
  assume "\<exists>l<br. P (i div br * br + l)"
  then obtain l where l: "l < br" "P (i div br * br + l)" by blast
  have "i < bc * br" using assms(2) by (simp add: mult.commute)
  then have d: "i div br < bc" by (rule less_mult_imp_div_less)
  have "i div br * br + l < (i div br + 1) * br" using l(1) by simp
  also have "\<dots> \<le> bc * br" using d by (intro mult_le_mono1) simp
  finally have "i div br * br + l < br * bc" by (simp add: mult.commute)
  moreover have "(i div br * br + l) div br = i div br" using l(1) assms(1) by simp
  ultimately show "\<exists>i'<br * bc. i' div br = i div br \<and> P i'" using l(2) by blast
next
  assume "\<exists>i'<br * bc. i' div br = i div br \<and> P i'"
  then obtain i' where i': "i' < br * bc" "i' div br = i div br" "P i'" by blast
  have "i' div br * br + i' mod br = i'" by simp
  then have e: "i div br * br + i' mod br = i'" using i'(2) by simp
  have "i' mod br < br" using assms(1) by simp
  then show "\<exists>l<br. P (i div br * br + l)" using i'(3) e by (intro exI[of _ "i' mod br"]) simp
qed

lemma is_legal_value_iff:
  assumes "0 < br" "0 < bc" "i < br * bc" "j < br * bc"
  shows "is_legal_value b i j v br bc = LEGAL_VALUE \<longleftrightarrow>
         (\<forall>i'<br * bc. \<forall>j'<br * bc. related br bc i j i' j' \<longrightarrow> tget b i' j' \<noteq> v)"
proof -
  have blk: "(\<exists>l<br. \<exists>m<bc. tget b (i div br * br + l) (j div bc * bc + m) = v) \<longleftrightarrow>
             (\<exists>i'<br * bc. \<exists>j'<br * bc. i' div br = i div br \<and> j' div bc = j div bc \<and> tget b i' j' = v)"
  proof -
    have "(\<exists>l<br. \<exists>m<bc. tget b (i div br * br + l) (j div bc * bc + m) = v) \<longleftrightarrow>
          (\<exists>l<br. \<exists>j'<bc * br. j' div bc = j div bc \<and> tget b (i div br * br + l) j' = v)"
      using block_index [OF assms(2), of j br "\<lambda>c. tget b (i div br * br + _) c = v"] assms(4)
      by (simp add: mult.commute)
    also have "\<dots> \<longleftrightarrow> (\<exists>i'<br * bc. i' div br = i div br \<and> (\<exists>j'<bc * br. j' div bc = j div bc \<and> tget b i' j' = v))"
      using block_index [OF assms(1) assms(3), of "\<lambda>r. \<exists>j'<bc * br. j' div bc = j div bc \<and> tget b r j' = v"]
      by simp
    finally show ?thesis by (auto simp: mult.commute)
  qed
  let ?RC = "list_ex (\<lambda>k. tget b k j = v \<or> tget b i k = v) [0..<bc * br]"
  let ?BL = "list_ex (\<lambda>l. list_ex (\<lambda>m. tget b (i div br * br + l) (j div bc * bc + m) = v) [0..<bc]) [0..<br]"
  have rc: "?RC \<longleftrightarrow> (\<exists>i'<br * bc. \<exists>j'<br * bc. (i = i' \<or> j = j') \<and> tget b i' j' = v)"
  proof -
    have "?RC \<longleftrightarrow> (\<exists>k<br * bc. tget b k j = v \<or> tget b i k = v)"
      by (simp add: list_ex_iff Bex_def mult.commute)
    also have "\<dots> \<longleftrightarrow> (\<exists>i'<br * bc. \<exists>j'<br * bc. (i = i' \<or> j = j') \<and> tget b i' j' = v)"
      using assms(3,4) by blast
    finally show ?thesis .
  qed
  have bl: "?BL \<longleftrightarrow> (\<exists>l<br. \<exists>m<bc. tget b (i div br * br + l) (j div bc * bc + m) = v)"
    by (simp add: list_ex_iff Bex_def)
  have "is_legal_value b i j v br bc = LEGAL_VALUE \<longleftrightarrow> \<not> ?RC \<and> \<not> ?BL"
    by (simp add: is_legal_value_def get_box_start_def Let_def)
  also have "\<dots> \<longleftrightarrow> \<not> (\<exists>i'<br * bc. \<exists>j'<br * bc. (i = i' \<or> j = j') \<and> tget b i' j' = v) \<and>
      \<not> (\<exists>i'<br * bc. \<exists>j'<br * bc. i' div br = i div br \<and> j' div bc = j div bc \<and> tget b i' j' = v)"
    by (simp only: rc bl blk)
  also have "\<dots> \<longleftrightarrow> (\<forall>i'<br * bc. \<forall>j'<br * bc. related br bc i j i' j' \<longrightarrow> tget b i' j' \<noteq> v)"
    unfolding related_def by blast
  finally show ?thesis .
qed

lemma update_erroneous_cell_frame:
  "snd (update_erroneous_cell i j (e, gb)) = gb\<lparr>err := err (snd (update_erroneous_cell i j (e, gb)))\<rparr>"
  by (simp add: update_erroneous_cell_def Let_def tset_same split: prod.splits)

lemma table_eqI:
  assumes "wf_table n a" "wf_table n b" "\<And>i j. i < n \<Longrightarrow> j < n \<Longrightarrow> tget a i j = tget b i j"
  shows "a = b"
proof (rule nth_equalityI)
  show "length a = length b" using assms(1,2) by (simp add: wf_table_def)
next
  fix i assume "i < length a"
  then have i: "i < n" using assms(1) by (simp add: wf_table_def)
  show "a ! i = b ! i"
  proof (rule nth_equalityI)
    show "length (a ! i) = length (b ! i)"
      using assms(1,2) i by (simp add: wf_table_row)
  next
    fix j assume "j < length (a ! i)"
    then have "j < n" using assms(1) i by (simp add: wf_table_row)
    then show "a ! i ! j = b ! i ! j" using assms(3)[OF i] by (simp add: tget_def)
  qed
qed

lemma wf_table_alloc [simp]: "wf_table n (alloc_table n)"
  by (simp add: wf_table_def alloc_table_def list_all_iff)

lemma tget_alloc: "i < n \<Longrightarrow> j < n \<Longrightarrow> tget (alloc_table n) i j = 0"
  by (simp add: tget_def alloc_table_def)

lemma fold_tset_row:
  fixes f :: "nat \<Rightarrow> int"
  assumes "wf_table n E" "i < n" "m \<le> n"
  shows "wf_table n (fold (\<lambda>j E. tset E i j (f j)) [0..<m] E) \<and>
         (\<forall>i' j'. tget (fold (\<lambda>j E. tset E i j (f j)) [0..<m] E) i' j' =
            (if i' = i \<and> j' < m then f j' else tget E i' j'))"
  using assms(3)
proof (induction m)
  case 0
  show ?case using assms(1) by simp
next
  case (Suc m)
  then have IH: "wf_table n (fold (\<lambda>j E. tset E i j (f j)) [0..<m] E)"
    "\<And>i' j'. tget (fold (\<lambda>j E. tset E i j (f j)) [0..<m] E) i' j' =
            (if i' = i \<and> j' < m then f j' else tget E i' j')"
    by simp_all
  have m: "m < n" using Suc.prems by simp
  show ?case
    using IH(1) by (auto simp: tget_tset [OF IH(1) assms(2) m] IH(2) less_Suc_eq)
qed

lemma fold_tset_table:
  fixes f :: "nat \<Rightarrow> nat \<Rightarrow> int"
  assumes "wf_table n E" "k \<le> n"
  shows "wf_table n (fold (\<lambda>i. fold (\<lambda>j E. tset E i j (f i j)) [0..<n]) [0..<k] E) \<and>
         (\<forall>i' j'. tget (fold (\<lambda>i. fold (\<lambda>j E. tset E i j (f i j)) [0..<n]) [0..<k] E) i' j' =
            (if i' < k \<and> j' < n then f i' j' else tget E i' j'))"
  using assms(2)
proof (induction k)
  case 0
  show ?case using assms(1) by simp
next
  case (Suc k)
  let ?E = "fold (\<lambda>i. fold (\<lambda>j E. tset E i j (f i j)) [0..<n]) [0..<k] E"
  from Suc have IH: "wf_table n ?E"
    "\<And>i' j'. tget ?E i' j' = (if i' < k \<and> j' < n then f i' j' else tget E i' j')"
    by simp_all
  have k: "k < n" using Suc.prems by simp
  note row = fold_tset_row [OF IH(1) k order_refl, of "f k"]
  show ?case
    using row by (auto simp: IH(2) less_Suc_eq)
qed

lemma copy_table_id:
  assumes "wf_table n src"
  shows "copy_table (alloc_table n) src n = src"
proof (rule table_eqI [where n = n])
  note F = fold_tset_table [OF wf_table_alloc order_refl, of n "tget src"]
  show "wf_table n (copy_table (alloc_table n) src n)"
    using F by (simp add: copy_table_def)
  show "wf_table n src" by fact
  fix i j assume "i < n" "j < n"
  then show "tget (copy_table (alloc_table n) src n) i j = tget src i j"
    using F by (simp add: copy_table_def)
qed

lemma conflict_iff:
  "conflict b br bc i j \<longleftrightarrow>
     (\<exists>i'<br * bc. \<exists>j'<br * bc. (i' \<noteq> i \<or> j' \<noteq> j) \<and> related br bc i j i' j' \<and>
        tget b i' j' = tget b i j)"
  by (simp add: conflict_def list_ex_iff Bex_def)

lemma is_legal_value_cases:
  "is_legal_value b i j v br bc = NOT_LEGAL_VALUE \<longleftrightarrow> is_legal_value b i j v br bc \<noteq> LEGAL_VALUE"
  by (simp add: is_legal_value_def Let_def get_box_start_def)

lemma not_legal_iff_conflict:
  assumes "0 < br" "0 < bc" "i < br * bc" "j < br * bc" "wf_table (br * bc) b" "tget b i j \<noteq> 0"
  shows "is_legal_value (tset b i j 0) i j (tget b i j) br bc = NOT_LEGAL_VALUE \<longleftrightarrow> conflict b br bc i j"
proof -
  have "is_legal_value (tset b i j 0) i j (tget b i j) br bc = LEGAL_VALUE \<longleftrightarrow>
        (\<forall>i'<br * bc. \<forall>j'<br * bc. related br bc i j i' j' \<longrightarrow>
            (if i' = i \<and> j' = j then 0 else tget b i' j') \<noteq> tget b i j)"
    by (simp add: is_legal_value_iff [OF assms(1-4)] tget_tset [OF assms(5,3,4)])
  also have "\<dots> \<longleftrightarrow> \<not> conflict b br bc i j"
    using assms(6) unfolding conflict_iff by (auto split: if_splits)
  finally show ?thesis by (simp add: is_legal_value_cases)
qed

lemma update_erroneous_cell_eq:
  assumes "wf_board gb" "i < N gb" "j < N gb"
  shows "update_erroneous_cell i j (e, gb) =
           (if bad_cell gb i j then 1 else e, gb\<lparr>err := tset (err gb) i j (err_value gb i j)\<rparr>)"
proof -
  have w: "0 < block_rows gb" "0 < block_cols gb" "i < block_rows gb * block_cols gb"
    "j < block_rows gb * block_cols gb" "wf_table (block_rows gb * block_cols gb) (board gb)"
    using assms by (auto simp: wf_board_def)
  show ?thesis
  proof (cases "tget (board gb) i j = 0")
    case True
    then show ?thesis
      by (simp add: update_erroneous_cell_def Let_def bad_cell_def err_value_def)
  next
    case False
    note nl = not_legal_iff_conflict [OF w False]
    show ?thesis
      using False nl
      by (simp add: update_erroneous_cell_def Let_def bad_cell_def err_value_def tset_same)
  qed
qed

lemma wf_boardD:
  assumes "wf_board gb"
  shows "0 < block_rows gb" "0 < block_cols gb" "N gb = block_rows gb * block_cols gb"
    "wf_table (N gb) (board gb)" "wf_table (N gb) (err gb)" "wf_table (N gb) (fixed gb)"
  using assms by (auto simp: wf_board_def)

lemma bad_cell_err [simp]: "bad_cell (gb\<lparr>err := E\<rparr>) = bad_cell gb"
  by (simp add: bad_cell_def fun_eq_iff)

lemma err_value_err [simp]: "err_value (gb\<lparr>err := E\<rparr>) = err_value gb"
  by (simp add: err_value_def fun_eq_iff)

lemma update_erroneous_row:
  assumes "wf_board gb" "i < N gb" "m \<le> N gb"
  shows "fold (\<lambda>j. update_erroneous_cell i j) [0..<m] (e, gb) =
           (if \<exists>j<m. bad_cell gb i j then 1 else e,
            gb\<lparr>err := fold (\<lambda>j E. tset E i j (err_value gb i j)) [0..<m] (err gb)\<rparr>)"
  using assms(3)
proof (induction m)
  case 0
  show ?case by simp
next
  case (Suc m)
  let ?E = "fold (\<lambda>j E. tset E i j (err_value gb i j)) [0..<m] (err gb)"
  have m: "m < N gb" using Suc.prems by simp
  have wE: "wf_table (N gb) ?E"
    using fold_tset_row [OF wf_boardD(5) [OF assms(1)] assms(2), of m "err_value gb i"] m
    by simp
  have wf': "wf_board (gb\<lparr>err := ?E\<rparr>)" using assms(1) wE by (auto simp: wf_board_def)
  have "fold (\<lambda>j. update_erroneous_cell i j) [0..<Suc m] (e, gb) =
        update_erroneous_cell i m (if \<exists>j<m. bad_cell gb i j then 1 else e, gb\<lparr>err := ?E\<rparr>)"
    using Suc.IH m by simp
  also have "\<dots> = (if bad_cell gb i m then 1 else (if \<exists>j<m. bad_cell gb i j then 1 else e),
                    gb\<lparr>err := tset ?E i m (err_value gb i m)\<rparr>)"
    using update_erroneous_cell_eq [OF wf', of i m] assms(2) m by simp
  also have "\<dots> = (if \<exists>j<Suc m. bad_cell gb i j then 1 else e,
            gb\<lparr>err := fold (\<lambda>j E. tset E i j (err_value gb i j)) [0..<Suc m] (err gb)\<rparr>)"
    by (auto simp: less_Suc_eq)
  finally show ?case .
qed

lemma update_erroneous_rows:
  assumes "wf_board gb" "k \<le> N gb"
  shows "fold (\<lambda>i. fold (\<lambda>j. update_erroneous_cell i j) [0..<N gb]) [0..<k] (e, gb) =
           (if \<exists>i<k. \<exists>j<N gb. bad_cell gb i j then 1 else e,
            gb\<lparr>err := fold (\<lambda>i. fold (\<lambda>j E. tset E i j (err_value gb i j)) [0..<N gb]) [0..<k] (err gb)\<rparr>)"
  using assms(2)
proof (induction k)
  case 0
  show ?case by simp
next
  case (Suc k)
  let ?E = "fold (\<lambda>i. fold (\<lambda>j E. tset E i j (err_value gb i j)) [0..<N gb]) [0..<k] (err gb)"
  have k: "k < N gb" using Suc.prems by simp
  have wE: "wf_table (N gb) ?E"
    using fold_tset_table [OF wf_boardD(5) [OF assms(1)], of k "err_value gb"] k
    by simp
  have wf': "wf_board (gb\<lparr>err := ?E\<rparr>)" using assms(1) wE by (auto simp: wf_board_def)
  have "fold (\<lambda>i. fold (\<lambda>j. update_erroneous_cell i j) [0..<N gb]) [0..<Suc k] (e, gb) =
        fold (\<lambda>j. update_erroneous_cell k j) [0..<N gb]
          (if \<exists>i<k. \<exists>j<N gb. bad_cell gb i j then 1 else e, gb\<lparr>err := ?E\<rparr>)"
    using Suc.IH k by simp
  also have "\<dots> = (if \<exists>j<N gb. bad_cell gb k j then 1 else (if \<exists>i<k. \<exists>j<N gb. bad_cell gb i j then 1 else e),
                    gb\<lparr>err := fold (\<lambda>j E. tset E k j (err_value gb k j)) [0..<N gb] ?E\<rparr>)"
    using update_erroneous_row [OF wf', of k "N gb"] k by simp
  also have "\<dots> = (if \<exists>i<Suc k. \<exists>j<N gb. bad_cell gb i j then 1 else e,
            gb\<lparr>err := fold (\<lambda>i. fold (\<lambda>j E. tset E i j (err_value gb i j)) [0..<N gb]) [0..<Suc k] (err gb)\<rparr>)"
    by (auto simp: less_Suc_eq)
  finally show ?case .
qed

lemma update_erroneous_eq:
  assumes "wf_board (g_board g)"
  shows "update_erroneous g =
           (if \<exists>i<N (g_board g). \<exists>j<N (g_board g). bad_cell (g_board g) i j then 1 else 0,
            g\<lparr>g_board := (g_board g)\<lparr>err :=
                 fold (\<lambda>i. fold (\<lambda>j E. tset E i j (err_value (g_board g) i j)) [0..<N (g_board g)])
                   [0..<N (g_board g)] (err (g_board g))\<rparr>\<rparr>)"
  unfolding update_erroneous_def Let_def
  by (simp add: update_erroneous_rows [OF assms order_refl])

lemma update_erroneous_cells_frame:
  "snd (fold (\<lambda>j. update_erroneous_cell i j) js s) = (snd s)\<lparr>err := err (snd (fold (\<lambda>j. update_erroneous_cell i j) js s))\<rparr>"
proof (induction js arbitrary: s)
  case Nil
  show ?case by simp
next
  case (Cons j js)
  obtain e gb where s: "s = (e, gb)" by (cases s)
  let ?s1 = "update_erroneous_cell i j (e, gb)"
  have 1: "snd ?s1 = gb\<lparr>err := err (snd ?s1)\<rparr>" by (rule update_erroneous_cell_frame)
  have 2: "snd (fold (\<lambda>j. update_erroneous_cell i j) js ?s1) =
           (snd ?s1)\<lparr>err := err (snd (fold (\<lambda>j. update_erroneous_cell i j) js ?s1))\<rparr>"
    by (rule Cons.IH)
  show ?case
    unfolding s by (simp, subst 2, subst 1, simp)
qed

lemma update_erroneous_table_frame:
  "snd (fold (\<lambda>i. fold (\<lambda>j. update_erroneous_cell i j) js) ks s) =
   (snd s)\<lparr>err := err (snd (fold (\<lambda>i. fold (\<lambda>j. update_erroneous_cell i j) js) ks s))\<rparr>"
proof (induction ks arbitrary: s)
  case Nil
  show ?case by simp
next
  case (Cons i ks)
  let ?s1 = "fold (\<lambda>j. update_erroneous_cell i j) js s"
  have 1: "snd ?s1 = (snd s)\<lparr>err := err (snd ?s1)\<rparr>" by (rule update_erroneous_cells_frame)
  have 2: "snd (fold (\<lambda>i. fold (\<lambda>j. update_erroneous_cell i j) js) ks ?s1) =
           (snd ?s1)\<lparr>err := err (snd (fold (\<lambda>i. fold (\<lambda>j. update_erroneous_cell i j) js) ks ?s1))\<rparr>"
    by (rule Cons.IH)
  show ?case
    by (simp, subst 2, subst 1, simp)
qed

lemma update_erroneous_err_only: "err_only g (snd (update_erroneous g))"
proof -
  let ?r = "fold (\<lambda>i. fold (\<lambda>j. update_erroneous_cell i j) [0..<N (g_board g)]) [0..<N (g_board g)] (0, g_board g)"
  have "snd ?r = (g_board g)\<lparr>err := err (snd ?r)\<rparr>"
    using update_erroneous_table_frame [of "[0..<N (g_board g)]" "[0..<N (g_board g)]" "(0, g_board g)"] by simp
  then show ?thesis
    unfolding err_only_def update_erroneous_def Let_def
    by (simp add: split_beta)
qed

lemma print_board_err_only: "err_only g (fst (print_board g))"
  using update_erroneous_err_only [of g]
  by (simp add: print_board_def Let_def err_only_def)

lemma err_only_fields:
  assumes "err_only g g'"
  shows "board (g_board g') = board (g_board g)" "fixed (g_board g') = fixed (g_board g)"
    "empty_cells_num (g_board g') = empty_cells_num (g_board g)" "mode g' = mode g"
    "m_list g' = m_list g" "N (g_board g') = N (g_board g)" "valid g' = valid g"
    "block_rows (g_board g') = block_rows (g_board g)" "block_cols (g_board g') = block_cols (g_board g)"
    "mark_errors g' = mark_errors g"
  using assms unfolding err_only_def
  by (metis game_board.select_convs game_board.surjective game_board.update_convs game_state.select_convs game_state.surjective game_state.update_convs)+

section \<open>What the commands leave alone\<close>

text \<open>
  \<open>eval_defs\<close> collects the equations that evaluate the board primitives on a concrete
  board.
\<close>

lemmas eval_defs = update_erroneous_def update_erroneous_cell_def Let_def
      is_legal_value_def get_box_start_def tget_def tset_def upt_rec init_moves_list_def
      print_board_def alloc_table_def copy_table_def

lemma solve1_state_eq: "solve env1 start_state ''p1'' = (PROCESS_SUCCESS, solve1_state, [BoardPrint [[0]] [[0]] [[0]] 1 1 1])"
  by (simp add: solve_def load_game_def load_cell_def env1_def start_state_def solve1_state_def
      one_cell_board_def initialize_game_aux_struct_def free_game_def eval_defs)

lemma validate_state: "fst (snd (validate e g)) = snd (update_erroneous g)"
  by (simp add: validate_def Let_def split_beta)

lemma hint_state: "fst (snd (hint e g x y)) = snd (update_erroneous g)"
  by (simp add: hint_def Let_def split_beta)

lemma guess_hint_state: "fst (snd (guess_hint e g x y)) = snd (update_erroneous g)"
  by (simp add: guess_hint_def Let_def split_beta)

lemma num_solutions_state: "num_solutions g = Some (st, g', os) \<Longrightarrow> g' = snd (update_erroneous g)"
  by (auto simp: num_solutions_def Let_def split_beta split: if_splits option.splits)

lemma keeps_refl [simp]: "keeps g g"
  by (simp add: keeps_def)

lemma keeps_trans: "keeps a b \<Longrightarrow> keeps b c \<Longrightarrow> keeps a c"
  by (auto simp: keeps_def)

lemma err_only_keeps: "err_only g g' \<Longrightarrow> keeps g g'"
  using err_only_fields [of g g'] by (simp add: keeps_def)

lemma keeps_update_erroneous: "keeps g (snd (update_erroneous g))"
  by (rule err_only_keeps [OF update_erroneous_err_only])

lemma keeps_print_board: "keeps g (fst (print_board g))"
  by (rule err_only_keeps [OF print_board_err_only])

lemma keeps_change_cell: "keeps g (change_cell g r c a b)"
  by (simp add: keeps_def change_cell_def Let_def)

lemma keeps_m_list [simp]: "keeps g (g'\<lparr>m_list := m\<rparr>) = keeps g g'"
  by (simp add: keeps_def)

lemma keeps_board_upd [simp]: "keeps g (g'\<lparr>g_board := (g_board g')\<lparr>board := b\<rparr>\<rparr>) = keeps g g'"
  by (simp add: keeps_def)

lemma keeps_empty_upd [simp]: "keeps g (g'\<lparr>g_board := (g_board g')\<lparr>empty_cells_num := k\<rparr>\<rparr>) = keeps g g'"
  by (simp add: keeps_def)

lemma keeps_mark_errors [simp]: "keeps g (g'\<lparr>mark_errors := k\<rparr>) = keeps g g'"
  by (simp add: keeps_def)

lemma keeps_fold:
  assumes "\<And>x s. keeps s (f x s)"
  shows "keeps s (fold f xs s)"
proof (induction xs arbitrary: s)
  case Nil
  show ?case by simp
next
  case (Cons x xs)
  show ?case using keeps_trans [OF assms [of s x] Cons.IH [of "f x s"]] by simp
qed

lemma keeps_revert_changes: "keeps g (revert_changes cs g)"
  unfolding revert_changes_def by (rule keeps_fold) (rule keeps_change_cell)

lemma keeps_apply_changes: "keeps g (apply_changes cs g)"
  unfolding apply_changes_def by (rule keeps_fold) (rule keeps_change_cell)

lemma keeps_free_game: "keeps g (free_game g)"
  by (simp add: keeps_def free_game_def)

lemma keeps_set_cell: "keeps g (set_cell g r c z)"
  by (simp add: keeps_def set_cell_def Let_def)

lemma keeps_completion_check: "keeps g (fst (snd (completion_check e g)))"
  by (simp add: completion_check_def Let_def keeps_free_game)

lemma keeps_set_cmd: "keeps g (fst (snd (set_cmd e g x y z)))"
proof -
  let ?g1 = "set_cell g (nat (y - 1)) (nat (x - 1)) z"
  let ?g2 = "fst (print_board ?g1)"
  have 2: "keeps g ?g2" by (rule keeps_trans [OF keeps_set_cell keeps_print_board])
  have 3: "keeps g (fst (snd (completion_check e ?g2)))"
    by (rule keeps_trans [OF 2 keeps_completion_check])
  show ?thesis
    using 2 3 by (simp add: set_cmd_def Let_def split_beta)
qed

lemma set_cmd_fixed:
  "tget (fixed (g_board g)) (nat (y - 1)) (nat (x - 1)) \<noteq> 0 \<Longrightarrow>
   set_cmd e g x y z = (PROCESS_SUCCESS, g, [Printf ''Error: cell is fixed'' []])"
  by (simp add: set_cmd_def Let_def)


lemma mode_print_board: "mode (fst (print_board g)) = mode g"
  by (rule err_only_fields(4) [OF print_board_err_only])

lemma fixed_print_board: "fixed (g_board (fst (print_board g))) = fixed (g_board g)"
  by (rule err_only_fields(2) [OF print_board_err_only])

lemma N_print_board: "N (g_board (fst (print_board g))) = N (g_board g)"
  by (rule err_only_fields(6) [OF print_board_err_only])

lemma keeps_fold_fst:
  assumes "\<And>x s. keeps (fst s) (fst (f x s))"
  shows "keeps (fst s) (fst (fold f xs s))"
proof (induction xs arbitrary: s)
  case Nil
  show ?case by simp
next
  case (Cons x xs)
  show ?case using keeps_trans [OF assms [of s x] Cons.IH [of "f x s"]] by simp
qed

lemma keeps_validate: "keeps g (fst (snd (validate e g)))"
  by (simp add: validate_state keeps_update_erroneous)

lemma keeps_hint: "keeps g (fst (snd (hint e g x y)))"
  by (simp add: hint_state keeps_update_erroneous)

lemma keeps_guess_hint: "keeps g (fst (snd (guess_hint e g x y)))"
  by (simp add: guess_hint_state keeps_update_erroneous)

lemma keeps_num_solutions: "num_solutions g = Some (st, g', os) \<Longrightarrow> keeps g g'"
  using num_solutions_state [of g st g' os] by (simp add: keeps_update_erroneous)

lemma keeps_undo: "keeps g (fst (snd (undo g)))"
  using keeps_trans [OF keeps_revert_changes keeps_print_board]
  by (simp add: undo_def Let_def split_beta)

lemma keeps_redo: "keeps g (fst (snd (redo g)))"
proof -
  let ?g1 = "g\<lparr>m_list := inc_curr_pointer (m_list g)\<rparr>"
  have "keeps g ?g1" by simp
  then have "keeps g (fst (print_board (apply_changes (get_curr_pointer_changes_iter (m_list ?g1)) ?g1)))"
    by (rule keeps_trans [OF _ keeps_trans [OF keeps_apply_changes keeps_print_board]])
  then show ?thesis by (simp add: redo_def Let_def split_beta)
qed

lemma keeps_reset_loop: "keeps g (reset_loop g)"
proof (induction g rule: reset_loop.induct)
  case (1 g)
  show ?case
  proof (cases "can_undo (m_list g)")
    case False
    then show ?thesis by (subst reset_loop.simps) simp
  next
    case True
    let ?g1 = "(revert_changes (get_curr_pointer_changes_iter (m_list g)) g)\<lparr>m_list := dec_curr_pointer (m_list g)\<rparr>"
    have a: "keeps g ?g1" by (simp add: keeps_revert_changes)
    have b: "keeps ?g1 (reset_loop ?g1)" using "1.IH" [OF True] .
    have "reset_loop g = reset_loop ?g1" using True by (subst reset_loop.simps) simp
    then show ?thesis using keeps_trans [OF a b] by simp
  qed
qed

lemma keeps_reset: "keeps g (fst (snd (reset g)))"
  using keeps_trans [OF keeps_reset_loop keeps_print_board]
  by (simp add: reset_def Let_def split_beta)

lemma keeps_autofill_cell: "keeps (fst s) (fst (autofill_cell ob r c s))"
  by (cases s) (simp add: autofill_cell_def Let_def keeps_change_cell)

lemma keeps_autofill_row: "keeps (fst s) (fst (fold (\<lambda>c. autofill_cell ob r c) js s))"
  using keeps_autofill_cell [of _ ob r] by (rule keeps_fold_fst)

lemma keeps_autofill_rows: "keeps (fst s) (fst (fold (\<lambda>r. fold (\<lambda>c. autofill_cell ob r c) js) ks s))"
  using keeps_autofill_row [of _ ob _ js] by (rule keeps_fold_fst)

lemma keeps_autofill_fill: "keeps g (fst (autofill_fill g))"
proof -
  let ?n = "N (g_board g)"
  let ?ob = "copy_table (alloc_table ?n) (board (g_board g)) ?n"
  let ?t = "fold (\<lambda>r. fold (\<lambda>c. autofill_cell ?ob r c) [0..<?n]) [0..<?n] (g, alloc_move_node, [])"
  let ?g3 = "if fst (snd ?t) \<noteq> [] then (fst ?t)\<lparr>m_list := add_move_node_to_list (m_list (fst ?t)) (fst (snd ?t))\<rparr> else fst ?t"
  have 2: "keeps g (fst ?t)"
    using keeps_autofill_rows [of "(g, alloc_move_node, [])" ?ob "[0..<?n]" "[0..<?n]"]
    by simp
  then have 3: "keeps g ?g3" by simp
  have 4: "keeps g (fst (print_board ?g3))" by (rule keeps_trans [OF 3 keeps_print_board])
  show ?thesis
    using 4 by (simp add: autofill_fill_def Let_def split_beta)
qed

lemma keeps_autofill: "keeps g (fst (snd (autofill e g)))"
proof -
  let ?g1 = "snd (update_erroneous g)"
  let ?g4 = "fst (autofill_fill ?g1)"
  have 1: "keeps g ?g1" by (rule keeps_update_erroneous)
  have 4: "keeps g ?g4" by (rule keeps_trans [OF 1 keeps_autofill_fill])
  have 5: "keeps g (fst (snd (completion_check e ?g4)))"
    by (rule keeps_trans [OF 4 keeps_completion_check])
  show ?thesis
    using 1 4 5 by (simp add: autofill_def Let_def split_beta)
qed

lemma keeps_save: "keeps g (fst (snd (save e g p)))"
  using keeps_update_erroneous [of g]
  by (simp add: save_def Let_def split_beta)

lemma keeps_randomly_generate_board: "keeps g (snd (fst (randomly_generate_board e g x rs)))"
  by (simp add: randomly_generate_board_def Let_def split_beta)

lemma keeps_generate: "keeps g (fst (snd (generate e rs g x y)))"
proof -
  let ?g1 = "snd (fst (randomly_generate_board e g x rs))"
  have 1: "keeps g ?g1" by (rule keeps_randomly_generate_board)
  have 2: "\<And>b m. keeps g (fst (print_board (?g1\<lparr>g_board := (g_board ?g1)\<lparr>board := b\<rparr>\<rparr>)))"
    by (rule keeps_trans [OF _ keeps_print_board]) (simp add: 1)
  have 3: "\<And>b m. keeps g (fst (print_board (?g1\<lparr>g_board := (g_board ?g1)\<lparr>board := b\<rparr>, m_list := m\<rparr>)))"
    by (rule keeps_trans [OF _ keeps_print_board]) (simp add: 1)
  show ?thesis
    using 1 2 3 by (simp add: generate_def Let_def split_beta)
qed

lemma keeps_guess_cmd: "keeps g (fst (snd (guess_cmd e rs g x)))"
proof -
  let ?g1 = "snd (update_erroneous g)"
  have 1: "keeps g ?g1" by (rule keeps_update_erroneous)
  have 2: "\<And>b. keeps g (fst (print_board (?g1\<lparr>g_board := (g_board ?g1)\<lparr>board := b\<rparr>\<rparr>)))"
    by (rule keeps_trans [OF _ keeps_print_board]) (simp add: 1)
  show ?thesis
    using 1 2 by (simp add: guess_cmd_def Let_def split_beta)
qed

lemma keeps_process_set: "keeps g (fst (snd (process_set e c g)))"
  by (simp add: process_set_def Let_def keeps_set_cmd)

lemma keeps_process_generate: "keeps g (fst (snd (process_generate e rs c g)))"
  by (simp add: process_generate_def Let_def keeps_generate)

lemma keeps_process_hint: "keeps g (fst (snd (process_hint e c g)))"
  by (simp add: process_hint_def Let_def keeps_hint)

lemma keeps_process_guess_hint: "keeps g (fst (snd (process_guess_hint e c g)))"
  by (simp add: process_guess_hint_def Let_def keeps_guess_hint)

lemma keeps_process_mark_errors: "keeps g (fst (snd (process_mark_errors c g)))"
  by (simp add: process_mark_errors_def Let_def)

lemma keeps_process_guess: "keeps g (fst (snd (process_guess e rs c g)))"
  by (simp add: process_guess_def keeps_guess_cmd)

lemma keeps_res4: "r = (st, g', os, rs') \<Longrightarrow> keeps g (fst (snd r)) \<Longrightarrow> keeps g g'"
  by simp

lemma keeps_num_solutions': "num_solutions g = Some r \<Longrightarrow> keeps g (fst (snd r))"
  by (cases r) (auto dest: keeps_num_solutions)

lemma process_command_cases:
  assumes "process_command e rs c g = Some (st, g', os, rs')"
  shows "keeps g g' \<or> g' = fst (snd (solve e g (path_string (file_path c)))) \<or>
         g' = fst (snd (edit e g (file_path c)))"
proof (cases "mode g = Init")
  case True
  then show ?thesis
    using assms by (auto simp: process_command_def process_command_init_def Let_def split_beta split: if_splits)
next
  case False
  note [simp] = process_command_def Let_def split_beta
  show ?thesis
  proof (cases "cmd_type c")
    case SOLVE
    then show ?thesis using assms False by auto
  next
    case EDIT
    then show ?thesis using assms False by auto
  next
    case MARK_ERRORS
    then show ?thesis using assms False
      by (auto simp: keeps_process_mark_errors split: if_splits)
  next
    case PRINT_BOARD
    then show ?thesis using assms False
      by (auto simp: keeps_print_board split: if_splits)
  next
    case SET
    then show ?thesis using assms False
      by (auto simp: keeps_process_set split: if_splits)
  next
    case VALIDATE
    then show ?thesis using assms False
      by (auto simp: keeps_validate split: if_splits)
  next
    case GENERATE
    then show ?thesis using assms False
      by (auto split: if_splits dest: keeps_res4 [OF _ keeps_process_generate])
  next
    case UNDO
    then show ?thesis using assms False
      by (auto simp: keeps_undo split: if_splits)
  next
    case REDO
    then show ?thesis using assms False
      by (auto simp: keeps_redo split: if_splits)
  next
    case SAVE
    then show ?thesis using assms False
      by (auto simp: keeps_save split: if_splits)
  next
    case HINT
    then show ?thesis using assms False
      by (auto simp: keeps_process_hint split: if_splits)
  next
    case GUESS_HINT
    then show ?thesis using assms False
      by (auto simp: keeps_process_guess_hint split: if_splits)
  next
    case GUESS
    then show ?thesis using assms False
      by (auto split: if_splits dest: keeps_res4 [OF _ keeps_process_guess])
  next
    case NUM_SOLUTIONS
    then show ?thesis using assms False
      by (auto split: if_splits option.splits dest: keeps_num_solutions)
  next
    case AUTOFILL
    then show ?thesis using assms False
      by (auto simp: keeps_autofill split: if_splits)
  next
    case RESET
    then show ?thesis using assms False
      by (auto simp: keeps_reset split: if_splits)
  next
    case EXIT
    then show ?thesis using assms False by auto
  next
    case INVALID_COMMAND
    then show ?thesis using assms False by auto
  next
    case INVALID_PARA_NUM
    then show ?thesis using assms False by auto
  next
    case DEFAULT_COMMAND
    then show ?thesis using assms False by auto
  qed
qed

lemma load_cell_fixed: "fixed_is F s \<Longrightarrow> fixed_is F (load_cell False i j s)"
  by (auto simp: fixed_is_def load_cell_def split: option.splits list.splits)

lemma fold_inv:
  assumes "\<And>x s. P s \<Longrightarrow> P (f x s)" "P s"
  shows "P (fold f xs s)"
  using assms(2) by (induction xs arbitrary: s) (simp_all add: assms(1))

lemma load_row_fixed: "fixed_is F s \<Longrightarrow> fixed_is F (fold (\<lambda>j. load_cell False i j) js s)"
  by (rule fold_inv [where P = "fixed_is F"]) (rule load_cell_fixed)

lemma load_cells_fixed:
  "fixed_is F s \<Longrightarrow> fixed_is F (fold (\<lambda>i. fold (\<lambda>j. load_cell False i j) js) ks s)"
  by (rule fold_inv [where P = "fixed_is F"]) (rule load_row_fixed)

lemma load_game_False_fixed:
  assumes "load_game e p False = (st, Some gb, os)"
  shows "fixed gb = alloc_table (N gb)"
proof -
  obtain f where f: "read_file e p = Some f"
    using assms by (auto simp: load_game_def split: option.splits)
  obtain br bc rest where h: "pf_header f = br # bc # rest"
    using assms f by (auto simp: load_game_def split: list.splits)
  let ?n = "br * bc"
  let ?r = "fold (\<lambda>i. fold (\<lambda>j. load_cell False i j) [0..<?n]) [0..<?n]
              (Some (alloc_table ?n, alloc_table ?n, 0, pf_cells f))"
  have inv: "fixed_is (alloc_table ?n) ?r"
    by (rule load_cells_fixed) (simp add: fixed_is_def)
  show ?thesis
    using assms f h inv
    by (auto simp: load_game_def Let_def fixed_is_def split: option.splits)
qed

lemma load_game_False_fixed':
  "fst (snd (load_game e p False)) = Some gb \<Longrightarrow> fixed gb = alloc_table (N gb)"
  by (cases "load_game e p False") (auto dest: load_game_False_fixed)

lemma keeps_edit_inv: "keeps g g' \<Longrightarrow> edit_inv g \<Longrightarrow> edit_inv g'"
  by (auto simp: keeps_def edit_inv_def)

lemma solve_edit_inv: "edit_inv g \<Longrightarrow> edit_inv (fst (snd (solve e g p)))"
  by (auto simp: solve_def Let_def split_beta edit_inv_def mode_print_board split: prod.splits option.splits)

lemma edit_edit_inv: "edit_inv g \<Longrightarrow> edit_inv (fst (snd (edit e g p)))"
  by (auto simp: edit_def Let_def split_beta edit_inv_def fixed_print_board N_print_board
      split: prod.splits option.splits dest: load_game_False_fixed')

lemma reachable_edit_inv: "reachable e g \<Longrightarrow> edit_inv g"
proof (induction rule: reachable.induct)
  case (reachable_init g)
  show ?case by (simp add: edit_inv_def initialize_game_aux_struct_def)
next
  case (reachable_step g rs c g' os rs')
  from process_command_cases [OF reachable_step.hyps(2)] show ?case
    using reachable_step.IH keeps_edit_inv solve_edit_inv edit_edit_inv by auto
qed

lemma edit1_state_reachable: "reachable env1 edit1_state"
proof -
  have "process_command env1 (\<lambda>k. 0) edit_p1 start_state =
          Some (PROCESS_SUCCESS, edit1_state, [BoardPrint [[0]] [[0]] [[0]] 1 1 1], (\<lambda>k. 0))"
    by (simp add: process_command_def process_command_init_def edit_p1_def edit_def load_game_def
        load_cell_def env1_def start_state_def edit1_state_def one_cell_board_def
        initialize_game_aux_struct_def free_game_def eval_defs)
  moreover have "reachable env1 start_state"
    unfolding start_state_def by (rule reachable_init)
  ultimately show ?thesis by (rule reachable_step [rotated])
qed

section \<open>Undo, redo and the moves list\<close>




















section \<open>The error refresh\<close>

text \<open>
  Claim C8. After \<open>update_erroneous\<close> on a well-formed board, \<open>err[i][j]\<close> is set exactly
  for the filled cells whose value is in conflict with another cell of the row, column or
  block and that are not fixed; the returned flag is set exactly when some filled cell,
  fixed or not, is in conflict.
\<close>

theorem update_erroneous_marks:
  assumes "wf_board (g_board g)"
  shows "(\<forall>i<N (g_board g). \<forall>j<N (g_board g).
            (tget (err (g_board (snd (update_erroneous g)))) i j \<noteq> 0) =
            (tget (board (g_board g)) i j \<noteq> 0 \<and>
             conflict (board (g_board g)) (block_rows (g_board g)) (block_cols (g_board g)) i j \<and>
             tget (fixed (g_board g)) i j = 0)) \<and>
         ((fst (update_erroneous g) \<noteq> 0) =
            (\<exists>i<N (g_board g). \<exists>j<N (g_board g).
               tget (board (g_board g)) i j \<noteq> 0 \<and>
               conflict (board (g_board g)) (block_rows (g_board g)) (block_cols (g_board g)) i j))"
proof -
  let ?gb = "g_board g"
  let ?E = "fold (\<lambda>i. fold (\<lambda>j E. tset E i j (err_value ?gb i j)) [0..<N ?gb]) [0..<N ?gb] (err ?gb)"
  note eq = update_erroneous_eq [OF assms]
  note F = fold_tset_table [OF wf_boardD(5) [OF assms] order_refl, of "err_value ?gb"]
  have E: "err (g_board (snd (update_erroneous g))) = ?E"
    by (simp add: eq)
  have cells: "\<And>i j. i < N ?gb \<Longrightarrow> j < N ?gb \<Longrightarrow> tget ?E i j = err_value ?gb i j"
    using F by simp
  have flag: "(fst (update_erroneous g) \<noteq> 0) = (\<exists>i<N ?gb. \<exists>j<N ?gb. bad_cell ?gb i j)"
    by (simp add: eq)
  show ?thesis
  proof (intro conjI allI impI)
    fix i j assume "i < N ?gb" "j < N ?gb"
    then have "tget (err (g_board (snd (update_erroneous g)))) i j = err_value ?gb i j"
      using cells E by simp
    then show "(tget (err (g_board (snd (update_erroneous g)))) i j \<noteq> 0) =
            (tget (board ?gb) i j \<noteq> 0 \<and>
             conflict (board ?gb) (block_rows ?gb) (block_cols ?gb) i j \<and>
             tget (fixed ?gb) i j = 0)"
      by (simp add: err_value_def bad_cell_def)
  next
    show "(fst (update_erroneous g) \<noteq> 0) =
            (\<exists>i<N ?gb. \<exists>j<N ?gb. tget (board ?gb) i j \<noteq> 0 \<and>
               conflict (board ?gb) (block_rows ?gb) (block_cols ?gb) i j)"
      unfolding flag by (simp add: bad_cell_def)
  qed
qed

lemma dup_state_eval:
  "update_erroneous dup_state =
     (1, dup_state\<lparr>g_board := (g_board dup_state)\<lparr>err := [[0, 1], [0, 0]]\<rparr>\<rparr>)"
  by (simp add: update_erroneous_def update_erroneous_cell_def dup_state_def Let_def
      is_legal_value_def get_box_start_def tget_def tset_def upt_rec init_moves_list_def)

theorem update_erroneous_marks_witness:
  "wf_board (g_board dup_state) \<and>
   tget (err (g_board (snd (update_erroneous dup_state)))) 0 1 \<noteq> 0 \<and>
   tget (err (g_board (snd (update_erroneous dup_state)))) 0 0 = 0 \<and>
   conflict (board (g_board dup_state)) 1 2 0 0 \<and>
   tget (fixed (g_board dup_state)) 0 0 \<noteq> 0 \<and>
   fst (update_erroneous dup_state) \<noteq> 0"
proof -
  have w: "wf_board (g_board dup_state)"
    by (simp add: wf_board_def wf_table_def dup_state_def)
  have c: "conflict (board (g_board dup_state)) 1 2 0 0"
    by (simp add: conflict_def related_def dup_state_def tget_def upt_rec)
  show ?thesis
    using update_erroneous_marks [OF w] w c
    by (simp add: dup_state_eval) (simp add: dup_state_def tget_def)
qed

section \<open>Commands that work on a scratch copy\<close>

text \<open>
  Claim C10. \<open>validate\<close>, \<open>hint\<close>, \<open>guess_hint\<close> and \<open>num_solutions\<close> hand a copy of
  the board to the solver or to the enumerator. Whatever they answer, the state they
  return has the board values, the clue marks, \<open>empty_cells_num\<close>, the mode and the
  moves list of the state they were given: it differs from it in the table \<open>err\<close> at
  most.
\<close>

theorem solver_commands_frame:
  assumes "validate e g = (st, g', os) \<or> hint e g x y = (st, g', os) \<or>
           guess_hint e g x y = (st, g', os) \<or> num_solutions g = Some (st, g', os)"
  shows "board (g_board g') = board (g_board g) \<and> fixed (g_board g') = fixed (g_board g) \<and>
         empty_cells_num (g_board g') = empty_cells_num (g_board g) \<and> mode g' = mode g \<and>
         m_list g' = m_list g \<and> err_only g g'"
proof -
  have "g' = snd (update_erroneous g)"
    using assms validate_state [of e g] hint_state [of e g x y] guess_hint_state [of e g x y]
      num_solutions_state [of g st g' os]
    by auto
  then have eo: "err_only g g'" by (simp add: update_erroneous_err_only)
  show ?thesis using err_only_fields [OF eo] eo by simp
qed

theorem solver_commands_frame_witness:
  "validate env1 solve1_state = (PROCESS_SUCCESS, solve1_state, [Printf ''Validation passed: board is solvable'' []]) \<and>
   board (g_board solve1_state) = [[0]] \<and> err_only solve1_state solve1_state"
proof -
  have v: "validate env1 solve1_state = (PROCESS_SUCCESS, solve1_state, [Printf ''Validation passed: board is solvable'' []])"
    by (simp add: validate_def is_valid_board_def env1_def solve1_state_def one_cell_board_def eval_defs)
  show ?thesis
    using solver_commands_frame [of env1 solve1_state PROCESS_SUCCESS solve1_state
        "[Printf ''Validation passed: board is solvable'' []]" 1 1] v
    by (simp add: solve1_state_def one_cell_board_def)
qed

section \<open>What a set records\<close>




section \<open>Fixed cells\<close>

text \<open>
  Claim C7. A \<open>set\<close> on a cell whose clue mark is set prints the error and returns the
  state unchanged, in any mode. In every state the program reaches in Edit mode no cell
  has a clue mark, so a \<open>set\<close> with coordinates inside the board always goes through:
  it writes the cell, records the move and prints the board.
\<close>

theorem set_refuses_fixed_cells:
  "(tget (fixed (g_board g)) (nat (y - 1)) (nat (x - 1)) \<noteq> 0 \<longrightarrow>
      set_cmd e g x y z = (PROCESS_SUCCESS, g, [Printf ''Error: cell is fixed'' []])) \<and>
   (reachable e g \<and> mode g = Edit \<and> 1 \<le> x \<and> x \<le> int (N (g_board g)) \<and>
    1 \<le> y \<and> y \<le> int (N (g_board g)) \<longrightarrow>
      tget (fixed (g_board g)) (nat (y - 1)) (nat (x - 1)) = 0 \<and>
      set_cmd e g x y z =
        (PROCESS_SUCCESS,
         fst (print_board (set_cell g (nat (y - 1)) (nat (x - 1)) z)),
         snd (print_board (set_cell g (nat (y - 1)) (nat (x - 1)) z))))"
proof (intro conjI impI)
  assume "tget (fixed (g_board g)) (nat (y - 1)) (nat (x - 1)) \<noteq> 0"
  then show "set_cmd e g x y z = (PROCESS_SUCCESS, g, [Printf ''Error: cell is fixed'' []])"
    by (rule set_cmd_fixed)
next
  assume a: "reachable e g \<and> mode g = Edit \<and> 1 \<le> x \<and> x \<le> int (N (g_board g)) \<and>
    1 \<le> y \<and> y \<le> int (N (g_board g))"
  then have "fixed (g_board g) = alloc_table (N (g_board g))"
    using reachable_edit_inv [of e g] by (simp add: edit_inv_def)
  moreover have "nat (y - 1) < N (g_board g)" "nat (x - 1) < N (g_board g)" using a by auto
  ultimately show z: "tget (fixed (g_board g)) (nat (y - 1)) (nat (x - 1)) = 0"
    by (simp add: tget_alloc)
  have "mode (fst (print_board (set_cell g (nat (y - 1)) (nat (x - 1)) z))) = Edit"
    using a by (simp add: mode_print_board set_cell_def Let_def)
  then show "set_cmd e g x y z =
        (PROCESS_SUCCESS,
         fst (print_board (set_cell g (nat (y - 1)) (nat (x - 1)) z)),
         snd (print_board (set_cell g (nat (y - 1)) (nat (x - 1)) z)))"
    using z by (simp add: set_cmd_def Let_def split_beta)
qed

theorem set_refuses_fixed_cells_witness:
  "tget (fixed (g_board dup_state)) (nat (1 - 1)) (nat (1 - 1)) \<noteq> 0 \<and>
   set_cmd env1 dup_state 1 1 2 = (PROCESS_SUCCESS, dup_state, [Printf ''Error: cell is fixed'' []]) \<and>
   reachable env1 edit1_state \<and> mode edit1_state = Edit \<and>
   tget (fixed (g_board edit1_state)) (nat (1 - 1)) (nat (1 - 1)) = 0 \<and>
   board (g_board (fst (snd (set_cmd env1 edit1_state 1 1 1)))) = [[1]]"
proof -
  have f: "tget (fixed (g_board dup_state)) (nat (1 - 1)) (nat (1 - 1)) \<noteq> 0"
    by (simp add: dup_state_def tget_def)
  have m: "mode edit1_state = Edit" "(1::int) \<le> int (N (g_board edit1_state))"
    by (simp_all add: edit1_state_def one_cell_board_def)
  have b: "board (g_board (fst (print_board (set_cell edit1_state (nat (1 - 1)) (nat (1 - 1)) 1)))) = [[1]]"
    by (simp add: set_cell_def edit1_state_def one_cell_board_def eval_defs
        add_move_node_to_list_def add_change_to_move_def alloc_move_node_def)
  show ?thesis
    using set_refuses_fixed_cells [of dup_state 1 1 env1 2]
      set_refuses_fixed_cells [of edit1_state 1 1 env1 1] f m b edit1_state_reachable
    by simp
qed

section \<open>Reset\<close>







section \<open>Undo followed by redo\<close>




end
